theory Spec2Isabelle
  imports Main
begin

section \<open>Errors\<close>

text \<open>
  The exceptions the Python code of \<^verbatim>\<open>prolif/utils.py\<close> can raise become values:
  a function that may raise returns \<open>error + 'a\<close>, with \<open>Inl\<close> for the exception.
\<close>

datatype error = IndexError | ValueError | KeyError | AttributeError

section \<open>The molecule of the valence repair (update_bonds_and_charges)\<close>

text \<open>
  The four bond types the module names in \<^verbatim>\<open>BONDTYPE_TO_RDKIT\<close>.
\<close>

datatype BondType = AROMATIC | SINGLE | DOUBLE | TRIPLE

text \<open>
  Twice the toolkit's numeric bond order (1, 1.5, 2, 3), so that the aromatic order
  stays a natural number. Only used to compare orders.
\<close>

fun bond_order2 :: "BondType \<Rightarrow> nat" where
  "bond_order2 SINGLE = 2"
| "bond_order2 AROMATIC = 3"
| "bond_order2 DOUBLE = 4"
| "bond_order2 TRIPLE = 6"

text \<open>
  An atom carries its atomic number, its formal charge, and the total valence the
  toolkit has cached for it (what \<^verbatim>\<open>atom.GetTotalValence()\<close> returns). A bond joins
  two atom indices. A molecule owns its atoms (indexed from 0) and its bonds, in the
  order the toolkit stores them.
\<close>

record Atom =
  atomic_num :: nat
  formal_charge :: int
  total_valence :: int

record Bond =
  begin_idx :: nat
  end_idx :: nat
  bond_type :: BondType

record Mol =
  mol_atoms :: "Atom list"
  mol_bonds :: "Bond list"

definition GetTotalValence :: "Mol \<Rightarrow> nat \<Rightarrow> int" where
  "GetTotalValence m a = total_valence (mol_atoms m ! a)"

definition GetAtomicNum :: "Mol \<Rightarrow> nat \<Rightarrow> nat" where
  "GetAtomicNum m a = atomic_num (mol_atoms m ! a)"

definition SetFormalCharge :: "Mol \<Rightarrow> nat \<Rightarrow> int \<Rightarrow> Mol" where
  "SetFormalCharge m a c =
     m\<lparr>mol_atoms := (mol_atoms m)[a := (mol_atoms m ! a)\<lparr>formal_charge := c\<rparr>]\<rparr>"

definition SetBondType :: "Mol \<Rightarrow> nat \<Rightarrow> BondType \<Rightarrow> Mol" where
  "SetBondType m bi t =
     m\<lparr>mol_bonds := (mol_bonds m)[bi := (mol_bonds m ! bi)\<lparr>bond_type := t\<rparr>]\<rparr>"

text \<open>
  \<^verbatim>\<open>mol.UpdatePropertyCache(strict=False)\<close> recomputes the cached valence of every
  atom from the molecule. The computation itself is the toolkit's: it is the parameter
  \<open>calc\<close> (molecule and atom index to total valence). Only the cache is written.
\<close>

fun refresh_from :: "(Mol \<Rightarrow> nat \<Rightarrow> int) \<Rightarrow> Mol \<Rightarrow> nat \<Rightarrow> Atom list \<Rightarrow> Atom list" where
  "refresh_from calc m i [] = []"
| "refresh_from calc m i (at # ats) =
     at\<lparr>total_valence := calc m i\<rparr> # refresh_from calc m (Suc i) ats"

definition UpdatePropertyCache :: "(Mol \<Rightarrow> nat \<Rightarrow> int) \<Rightarrow> Mol \<Rightarrow> Mol" where
  "UpdatePropertyCache calc m = m\<lparr>mol_atoms := refresh_from calc m 0 (mol_atoms m)\<rparr>"

text \<open>
  \<^verbatim>\<open>atom.GetNeighbors()\<close>: the atoms at the other end of the atom's bonds, in bond
  order.
\<close>

fun neighbors_in :: "nat \<Rightarrow> Bond list \<Rightarrow> nat list" where
  "neighbors_in a [] = []"
| "neighbors_in a (b # bs) =
     (if begin_idx b = a then end_idx b # neighbors_in a bs
      else if end_idx b = a then begin_idx b # neighbors_in a bs
      else neighbors_in a bs)"

definition GetNeighbors :: "Mol \<Rightarrow> nat \<Rightarrow> nat list" where
  "GetNeighbors m a = neighbors_in a (mol_bonds m)"

text \<open>
  \<^verbatim>\<open>mol.GetBondBetweenAtoms(i, j)\<close>: the index of the first bond joining the two
  atoms, in either direction; \<open>None\<close> when there is none.
\<close>

fun bond_between :: "nat \<Rightarrow> nat \<Rightarrow> nat \<Rightarrow> Bond list \<Rightarrow> nat option" where
  "bond_between a n i [] = None"
| "bond_between a n i (b # bs) =
     (if (begin_idx b = a \<and> end_idx b = n) \<or> (begin_idx b = n \<and> end_idx b = a)
      then Some i else bond_between a n (Suc i) bs)"

definition GetBondBetweenAtoms :: "Mol \<Rightarrow> nat \<Rightarrow> nat \<Rightarrow> nat option" where
  "GetBondBetweenAtoms m a n = bond_between a n 0 (mol_bonds m)"

section \<open>update_bonds_and_charges\<close>

text \<open>
  \<^verbatim>\<open>electrons = [ v - vtot for v in valences ]\<close>, with \<open>valences\<close> read from the
  toolkit's periodic table, the parameter \<open>tbl\<close> (atomic number to valence list).
\<close>

definition electrons_of :: "(nat \<Rightarrow> int list) \<Rightarrow> Mol \<Rightarrow> nat \<Rightarrow> int list" where
  "electrons_of tbl m a =
     (let vtot = GetTotalValence m a;
          valences = tbl (GetAtomicNum m a)
      in map (\<lambda>v. v - vtot) valences)"

text \<open>
  \<^verbatim>\<open>min(set_electrons.intersection(na_electrons), default=np.nan)\<close>: \<open>None\<close> stands for
  \<open>np.nan\<close>, the value of an empty intersection.
\<close>

definition common_electrons :: "int list \<Rightarrow> int list \<Rightarrow> int option" where
  "common_electrons electrons na_electrons =
     (case filter (\<lambda>e. e \<in> set na_electrons) electrons of
        [] \<Rightarrow> None
      | e # es \<Rightarrow> Some (Min (set (e # es))))"

text \<open>
  The loop over the neighbours of atom \<open>a\<close> (lines 36 to 56). \<open>i\<close> counts from 1,
  \<open>len\<close> is \<^verbatim>\<open>len(neighbors)\<close>. A \<^verbatim>\<open>break\<close> returns the molecule at once; the charge
  at the last neighbour has no \<^verbatim>\<open>break\<close>, so the loop goes on to the (empty) rest.
  \<^verbatim>\<open>electrons[0]\<close> on an empty list raises IndexError, and a method call on the
  \<^verbatim>\<open>None\<close> that \<^verbatim>\<open>GetBondBetweenAtoms\<close> may return raises AttributeError.
\<close>

fun neighbors_loop ::
  "(nat \<Rightarrow> int list) \<Rightarrow> (Mol \<Rightarrow> nat \<Rightarrow> int) \<Rightarrow> nat \<Rightarrow> int list \<Rightarrow> nat \<Rightarrow> nat \<Rightarrow> nat list \<Rightarrow> Mol
     \<Rightarrow> error + Mol" where
  "neighbors_loop tbl calc a electrons len i [] m = Inr m"
| "neighbors_loop tbl calc a electrons len i (na # rest) m =
     (let na_electrons = electrons_of tbl m na;
          common = common_electrons electrons na_electrons
      in if common \<noteq> Some 0 then
           (case common of
              None \<Rightarrow>
                (if i = len then
                   (case electrons of
                      [] \<Rightarrow> Inl IndexError
                    | e0 # _ \<Rightarrow>
                        neighbors_loop tbl calc a electrons len (Suc i) rest
                          (UpdatePropertyCache calc (SetFormalCharge m a (- e0))))
                 else neighbors_loop tbl calc a electrons len (Suc i) rest m)
            | Some k \<Rightarrow>
                (case GetBondBetweenAtoms m a na of
                   None \<Rightarrow>
                     (if k = 1 \<or> k = 2 then Inl AttributeError
                      else Inr (UpdatePropertyCache calc m))
                 | Some bi \<Rightarrow>
                     Inr (UpdatePropertyCache calc
                            (if k = 1 then SetBondType m bi DOUBLE
                             else if k = 2 then SetBondType m bi TRIPLE
                             else m))))
         else neighbors_loop tbl calc a electrons len (Suc i) rest m)"

text \<open>The body of the loop over the atoms (lines 20 to 56), for the atom of index \<open>a\<close>.\<close>

definition atom_step :: "(nat \<Rightarrow> int list) \<Rightarrow> (Mol \<Rightarrow> nat \<Rightarrow> int) \<Rightarrow> Mol \<Rightarrow> nat \<Rightarrow> error + Mol" where
  "atom_step tbl calc m a =
     (let electrons = electrons_of tbl m a
      in if length electrons = 1 \<and> electrons ! 0 < 0 then
           Inr (UpdatePropertyCache calc (SetFormalCharge m a (- (electrons ! 0))))
         else
           (let neighbors = GetNeighbors m a
            in neighbors_loop tbl calc a electrons (length neighbors) 1 neighbors m))"

fun atoms_loop :: "(nat \<Rightarrow> int list) \<Rightarrow> (Mol \<Rightarrow> nat \<Rightarrow> int) \<Rightarrow> nat list \<Rightarrow> Mol \<Rightarrow> error + Mol" where
  "atoms_loop tbl calc [] m = Inr m"
| "atoms_loop tbl calc (a # as) m =
     (case atom_step tbl calc m a of
        Inl e \<Rightarrow> Inl e
      | Inr m' \<Rightarrow> atoms_loop tbl calc as m')"

text \<open>
  The whole function: every atom in index order, then \<^verbatim>\<open>Chem.SanitizeMol(mol)\<close>, the
  toolkit's validation, the parameter \<open>sanitize\<close> (it may raise, here \<open>Inl\<close>).
\<close>

definition update_bonds_and_charges ::
  "(nat \<Rightarrow> int list) \<Rightarrow> (Mol \<Rightarrow> nat \<Rightarrow> int) \<Rightarrow> (Mol \<Rightarrow> 'e + Mol) \<Rightarrow> Mol \<Rightarrow> (error + 'e) + Mol" where
  "update_bonds_and_charges tbl calc sanitize m =
     (case atoms_loop tbl calc [0..<length (mol_atoms m)] m of
        Inl e \<Rightarrow> Inl (Inl e)
      | Inr m' \<Rightarrow> (case sanitize m' of Inl e \<Rightarrow> Inl (Inr e) | Inr m'' \<Rightarrow> Inr m''))"

subsection \<open>A toolkit instance for the worked examples\<close>

text \<open>
  For a molecule with every hydrogen explicit, the total valence of an atom is its
  explicit valence: the sum of the orders of its bonds, rounded as the toolkit rounds
  it. The valence lists are the toolkit's for H, C, N, O, F, P and S; every other
  element gets the list [-1], as the toolkit gives the elements without a fixed valence
  (iron among them).
\<close>

fun touching2 :: "nat \<Rightarrow> Bond list \<Rightarrow> nat" where
  "touching2 a [] = 0"
| "touching2 a (b # bs) =
     (if begin_idx b = a \<or> end_idx b = a then bond_order2 (bond_type b) else 0) + touching2 a bs"

definition explicit_valence :: "Mol \<Rightarrow> nat \<Rightarrow> int" where
  "explicit_valence m a = int ((touching2 a (mol_bonds m) + 1) div 2)"

definition valence_list :: "nat \<Rightarrow> int list" where
  "valence_list z =
     (if z = 1 then [1] else if z = 6 then [4] else if z = 7 then [3] else if z = 8 then [2]
      else if z = 9 then [1] else if z = 15 then [3, 5, 7]
      else if z = 16 then [2, 4, 6] else [-1])"

definition mk_atom :: "nat \<Rightarrow> int \<Rightarrow> Atom" where
  "mk_atom z v = \<lparr>atomic_num = z, formal_charge = 0, total_valence = v\<rparr>"

definition mk_bond :: "nat \<Rightarrow> nat \<Rightarrow> BondType \<Rightarrow> Bond" where
  "mk_bond i j t = \<lparr>begin_idx = i, end_idx = j, bond_type = t\<rparr>"

text \<open>
  Sulfuryl fluoride as a trajectory gives it, every bond single: S, F, F, O, O.
\<close>

definition so2f2 :: Mol where
  "so2f2 =
     \<lparr>mol_atoms = [mk_atom 16 4, mk_atom 9 1, mk_atom 9 1, mk_atom 8 1, mk_atom 8 1],
      mol_bonds = [mk_bond 0 1 SINGLE, mk_bond 0 2 SINGLE, mk_bond 0 3 SINGLE,
                   mk_bond 0 4 SINGLE]\<rparr>"

text \<open>Disulfur difluoride, F-S-S-F.\<close>

definition fssf :: Mol where
  "fssf =
     \<lparr>mol_atoms = [mk_atom 9 1, mk_atom 16 2, mk_atom 16 2, mk_atom 9 1],
      mol_bonds = [mk_bond 0 1 SINGLE, mk_bond 1 2 SINGLE, mk_bond 2 3 SINGLE]\<rparr>"

text \<open>
  A carbon triply bonded to a phosphorus that also carries a nitrogen: C, P, N, the
  P-N bond stored first.
\<close>

definition cpn :: Mol where
  "cpn =
     \<lparr>mol_atoms = [mk_atom 6 3, mk_atom 15 4, mk_atom 7 1],
      mol_bonds = [mk_bond 1 2 SINGLE, mk_bond 0 1 TRIPLE]\<rparr>"

text \<open>
  Ethylene with its four hydrogens, every bond single: C, C, H, H, H, H; the first
  carbon meets a hydrogen, then the other carbon, then its second hydrogen.
\<close>

definition ethylene :: Mol where
  "ethylene =
     \<lparr>mol_atoms = [mk_atom 6 3, mk_atom 6 3, mk_atom 1 1, mk_atom 1 1, mk_atom 1 1,
                   mk_atom 1 1],
      mol_bonds = [mk_bond 0 2 SINGLE, mk_bond 0 1 SINGLE, mk_bond 0 3 SINGLE,
                   mk_bond 1 4 SINGLE, mk_bond 1 5 SINGLE]\<rparr>"


text \<open>A lone iron atom (no bond), and water.\<close>

definition iron :: Mol where
  "iron = \<lparr>mol_atoms = [mk_atom 26 0], mol_bonds = []\<rparr>"

definition water :: Mol where
  "water =
     \<lparr>mol_atoms = [mk_atom 8 2, mk_atom 1 1, mk_atom 1 1],
      mol_bonds = [mk_bond 0 1 SINGLE, mk_bond 0 2 SINGLE]\<rparr>"

section \<open>Python's strings, lists and dictionaries\<close>

text \<open>
  \<^verbatim>\<open>and_then\<close> chains two steps that may raise: the second runs on the value of the
  first, and an exception of the first is the result.
\<close>

fun and_then :: "error + 'a \<Rightarrow> ('a \<Rightarrow> error + 'b) \<Rightarrow> error + 'b" where
  "and_then (Inl e) f = Inl e"
| "and_then (Inr x) f = f x"

text \<open>\<^verbatim>\<open>xs[i]\<close> for an index that is not negative: IndexError out of range.\<close>

definition py_get :: "'a list \<Rightarrow> nat \<Rightarrow> error + 'a" where
  "py_get xs i = (if i < length xs then Inr (xs ! i) else Inl IndexError)"

text \<open>\<^verbatim>\<open>d[k]\<close> on a dictionary: KeyError for a missing key.\<close>

definition dict_get :: "('k \<rightharpoonup> 'v) \<Rightarrow> 'k \<Rightarrow> error + 'v" where
  "dict_get d k = (case d k of None \<Rightarrow> Inl KeyError | Some v \<Rightarrow> Inr v)"

text \<open>
  \<^verbatim>\<open>xs[lo:hi]\<close>: a negative bound counts from the end, every bound is clamped to the
  list, and the slice is empty when the bounds cross. Nothing raises.
\<close>

definition clamp_index :: "nat \<Rightarrow> int \<Rightarrow> nat" where
  "clamp_index len i = (if i < 0 then nat (max (i + int len) 0) else min (nat i) len)"

definition py_slice :: "'a list \<Rightarrow> int \<Rightarrow> int \<Rightarrow> 'a list" where
  "py_slice xs lo hi =
     (let l = clamp_index (length xs) lo;
          h = clamp_index (length xs) hi
      in take (h - l) (drop l xs))"

text \<open>
  The characters \<^verbatim>\<open>str.split()\<close> splits at, among the single-byte characters: space,
  tab, line feed, vertical tab, form feed, carriage return and the four separators
  0x1C to 0x1F.
\<close>

definition is_space :: "char \<Rightarrow> bool" where
  "is_space c =
     (c \<in> set [CHR '' '', CHR 0x09, CHR 0x0A, CHR 0x0B, CHR 0x0C, CHR 0x0D,
               CHR 0x1C, CHR 0x1D, CHR 0x1E, CHR 0x1F])"

text \<open>
  \<^verbatim>\<open>s.split()\<close>: the maximal runs of characters that are not whitespace, in order.
  \<open>cur\<close> is the run being read.
\<close>

fun split_from :: "string \<Rightarrow> string \<Rightarrow> string list" where
  "split_from cur [] = (if cur = [] then [] else [cur])"
| "split_from cur (c # cs) =
     (if is_space c then (if cur = [] then split_from [] cs else cur # split_from [] cs)
      else split_from (cur @ [c]) cs)"

definition py_split :: "string \<Rightarrow> string list" where
  "py_split s = split_from [] s"

text \<open>
  \<^verbatim>\<open>re.search(pat, line)\<close> for a pattern without special characters, as the three
  record markers are: whether \<open>pat\<close> occurs in the line.
\<close>

fun re_search :: "string \<Rightarrow> string \<Rightarrow> bool" where
  "re_search pat [] = (pat = [])"
| "re_search pat (c # cs) = (take (length pat) (c # cs) = pat \<or> re_search pat cs)"

text \<open>
  \<^verbatim>\<open>int(s)\<close> on a token without whitespace: an optional sign, then decimal digits,
  single underscores allowed between digits; ValueError otherwise.
\<close>

definition digit_val :: "char \<Rightarrow> nat option" where
  "digit_val c =
     (let code = (of_char c :: nat)
      in if 48 \<le> code \<and> code \<le> 57 then Some (code - 48) else None)"

fun parse_digits :: "nat \<Rightarrow> string \<Rightarrow> nat option" where
  "parse_digits acc [] = Some acc"
| "parse_digits acc [c] =
     (case digit_val c of None \<Rightarrow> None | Some d \<Rightarrow> Some (10 * acc + d))"
| "parse_digits acc (c # c' # cs) =
     (case digit_val c of
        Some d \<Rightarrow> parse_digits (10 * acc + d) (c' # cs)
      | None \<Rightarrow>
          (if c = CHR ''_'' then
             (case digit_val c' of
                None \<Rightarrow> None
              | Some d \<Rightarrow> parse_digits (10 * acc + d) cs)
           else None))"

definition py_int :: "string \<Rightarrow> error + int" where
  "py_int s =
     (let neg = (take 1 s = ''-'');
          body = (if take 1 s = ''-'' \<or> take 1 s = ''+'' then drop 1 s else s)
      in case body of
           [] \<Rightarrow> Inl ValueError
         | c # cs \<Rightarrow>
             (case digit_val c of
                None \<Rightarrow> Inl ValueError
              | Some d \<Rightarrow>
                  (case parse_digits d cs of
                     None \<Rightarrow> Inl ValueError
                   | Some n \<Rightarrow> Inr (if neg then - int n else int n))))"

text \<open>\<^verbatim>\<open>str(n)\<close> for a natural number: its decimal digits.\<close>

fun py_str :: "nat \<Rightarrow> string" where
  "py_str n =
     (if n < 10 then [''0123456789'' ! n]
      else py_str (n div 10) @ [''0123456789'' ! (n mod 10)])"

section \<open>The mol2 reader\<close>

text \<open>
  \<^verbatim>\<open>get_mol2_records(lines)\<close>: the indices of the lines holding each marker, in file
  order; a line counts for the first marker of the three it holds.
\<close>

fun scan_records :: "nat \<Rightarrow> string list \<Rightarrow> nat list \<times> nat list \<times> nat list" where
  "scan_records i [] = ([], [], [])"
| "scan_records i (line # rest) =
     (case scan_records (Suc i) rest of
        (mol_lines, first_atom_lines, first_bond_lines) \<Rightarrow>
          if re_search ''@<TRIPOS>MOLECULE'' line then
            (i # mol_lines, first_atom_lines, first_bond_lines)
          else if re_search ''@<TRIPOS>ATOM'' line then
            (mol_lines, i # first_atom_lines, first_bond_lines)
          else if re_search ''@<TRIPOS>BOND'' line then
            (mol_lines, first_atom_lines, i # first_bond_lines)
          else (mol_lines, first_atom_lines, first_bond_lines))"

definition get_mol2_records :: "string list \<Rightarrow> nat list \<times> nat list \<times> nat list" where
  "get_mol2_records lines = scan_records 0 lines"

text \<open>
  A molecule the toolkit's parser returned, with the property \<^verbatim>\<open>resname\<close> set on it.
\<close>

datatype 'm residue = Residue (resname: string) (rdmol: 'm)

text \<open>
  \<^verbatim>\<open>[line.split()[7] for line in ...]\<close>: the residue name of every atom line;
  IndexError for a line of fewer than eight fields.
\<close>

fun atom_resnames :: "string list \<Rightarrow> error + string list" where
  "atom_resnames [] = Inr []"
| "atom_resnames (line # rest) =
     and_then (py_get (py_split line) 7) (\<lambda>name.
     and_then (atom_resnames rest) (\<lambda>names. Inr (name # names)))"

text \<open>
  Lines 170 to 175: every atom line is appended to the list of its residue, and its
  id is mapped to its residue name (a later line with the same id replaces the entry).
\<close>

fun assign_atoms ::
  "string list \<Rightarrow> (string \<Rightarrow> string list) \<Rightarrow> (string \<rightharpoonup> string)
     \<Rightarrow> error + (string \<Rightarrow> string list) \<times> (string \<rightharpoonup> string)" where
  "assign_atoms [] atoms map_id_to_res = Inr (atoms, map_id_to_res)"
| "assign_atoms (line # rest) atoms map_id_to_res =
     (let data = py_split line
      in and_then (py_get data 0) (\<lambda>atom_id.
         and_then (py_get data 7) (\<lambda>resname.
         assign_atoms rest (atoms(resname := atoms resname @ [line]))
           (map_id_to_res(atom_id \<mapsto> resname)))))"

text \<open>
  Lines 182 to 189: a bond line is appended to the list of a residue when both its
  atoms belong to that residue; otherwise it is left out.
\<close>

fun assign_bonds ::
  "(string \<rightharpoonup> string) \<Rightarrow> string list \<Rightarrow> (string \<Rightarrow> string list)
     \<Rightarrow> error + (string \<Rightarrow> string list)" where
  "assign_bonds map_id_to_res [] bonds = Inr bonds"
| "assign_bonds map_id_to_res (line # rest) bonds =
     (let data = py_split line
      in and_then (py_get data 1) (\<lambda>atom1.
         and_then (py_get data 2) (\<lambda>atom2.
         and_then (dict_get map_id_to_res atom1) (\<lambda>res1.
         and_then (dict_get map_id_to_res atom2) (\<lambda>res2.
         if res1 = res2 then
           assign_bonds map_id_to_res rest (bonds(res1 := bonds res1 @ [line]))
         else assign_bonds map_id_to_res rest bonds)))))"

text \<open>
  Lines 197 to 201: the atom lines of one residue, renumbered. \<open>i\<close> is the index
  \<^verbatim>\<open>enumerate\<close> gives; the new line is \<^verbatim>\<open>str(i+1) + line[len(atom_id):]\<close>.
\<close>

fun renumber_atoms ::
  "nat \<Rightarrow> string list \<Rightarrow> (string \<rightharpoonup> nat) \<Rightarrow> error + string list \<times> (string \<rightharpoonup> nat)" where
  "renumber_atoms i [] map_atoms = Inr ([], map_atoms)"
| "renumber_atoms i (line # rest) map_atoms =
     and_then (py_get (py_split line) 0) (\<lambda>atom_id.
     and_then (renumber_atoms (Suc i) rest (map_atoms(atom_id \<mapsto> i + 1))) (\<lambda>r.
     Inr ((py_str (i + 1) @ drop (length atom_id) line) # fst r, snd r)))"

text \<open>
  Lines 202 to 208: the bond lines of one residue, renumbered through \<open>map_atoms\<close>.
\<close>

fun renumber_bonds :: "(string \<rightharpoonup> nat) \<Rightarrow> nat \<Rightarrow> string list \<Rightarrow> error + string list" where
  "renumber_bonds map_atoms i [] = Inr []"
| "renumber_bonds map_atoms i (line # rest) =
     (let data = py_split line
      in and_then (py_get data 1) (\<lambda>atom1.
         and_then (py_get data 2) (\<lambda>atom2.
         and_then (py_get data 3) (\<lambda>bond_type.
         and_then (dict_get map_atoms atom1) (\<lambda>new1.
         and_then (dict_get map_atoms atom2) (\<lambda>new2.
         and_then (renumber_bonds map_atoms (Suc i) rest) (\<lambda>new_bonds.
         Inr ((py_str (i + 1) @ '' '' @ py_str new1 @ '' '' @ py_str new2 @ '' ''
                 @ bond_type @ ''\<newline>'') # new_bonds))))))))"

text \<open>The text of lines 210 to 225.\<close>

definition residue_mol2_block :: "string \<Rightarrow> string list \<Rightarrow> string list \<Rightarrow> string" where
  "residue_mol2_block mol_name new_atoms new_bonds =
     ''@<TRIPOS>MOLECULE\<newline>'' @ mol_name @ ''\<newline>''
       @ py_str (length new_atoms) @ '' '' @ py_str (length new_bonds) @ ''\<newline>''
       @ ''SMALL\<newline>'' @ ''USER_CHARGES\<newline>'' @ ''@<TRIPOS>ATOM\<newline>''
       @ concat new_atoms @ ''@<TRIPOS>BOND\<newline>'' @ concat new_bonds"

text \<open>
  Lines 192 to 229: one residue after the other, in the order \<open>resnames\<close> is iterated.
  The toolkit's \<^verbatim>\<open>Chem.MolFromMol2Block(block, sanitize, removeHs)\<close> is the parameter
  \<open>parser\<close>; it returns a molecule or \<^verbatim>\<open>None\<close>.
\<close>

fun create_residues ::
  "(string \<Rightarrow> bool \<Rightarrow> bool \<Rightarrow> 'm option) \<Rightarrow> bool \<Rightarrow> (string \<Rightarrow> string list)
     \<Rightarrow> (string \<Rightarrow> string list) \<Rightarrow> string list \<Rightarrow> error + 'm residue list" where
  "create_residues parser ignoreH atoms bonds [] = Inr []"
| "create_residues parser ignoreH atoms bonds (name # rest) =
     and_then (renumber_atoms 0 (atoms name) Map.empty) (\<lambda>r.
     and_then (renumber_bonds (snd r) 0 (bonds name)) (\<lambda>new_bonds.
     and_then (create_residues parser ignoreH atoms bonds rest) (\<lambda>residues.
     case parser (residue_mol2_block name (fst r) new_bonds) True ignoreH of
       Some residue \<Rightarrow> Inr (Residue name residue # residues)
     | None \<Rightarrow> Inr residues)))"

text \<open>
  \<^verbatim>\<open>residues_from_block(block, ignoreH)\<close>. The residue names are a Python \<^verbatim>\<open>set\<close>,
  iterated in an order the language does not fix: \<open>set_order\<close> is that order, a
  parameter that maps the list the set is built from to the list of its elements as
  the loops meet them.
\<close>

definition residues_from_block ::
  "(string list \<Rightarrow> string list) \<Rightarrow> (string \<Rightarrow> bool \<Rightarrow> bool \<Rightarrow> 'm option) \<Rightarrow> string list \<Rightarrow> bool
     \<Rightarrow> error + 'm residue list" where
  "residues_from_block set_order parser block ignoreH =
     (case get_mol2_records block of
        (mol_lines, first_atom_lines, first_bond_lines) \<Rightarrow>
          and_then (py_get mol_lines 0) (\<lambda>mol_line.
          and_then (py_get first_atom_lines 0) (\<lambda>first_atom_line.
          and_then (py_get first_bond_lines 0) (\<lambda>first_bond_line.
          and_then (py_get block (mol_line + 2)) (\<lambda>header.
          and_then (py_get (py_split header) 0) (\<lambda>data0.
          and_then (py_int data0) (\<lambda>num_atoms.
          and_then (py_get (py_split header) 1) (\<lambda>data1.
          and_then (py_int data1) (\<lambda>num_bonds.
          let atom_lines = py_slice block (int first_atom_line + 1)
                             (int first_atom_line + num_atoms + 1)
          in and_then (atom_resnames atom_lines) (\<lambda>names.
             and_then (assign_atoms atom_lines (\<lambda>_. []) Map.empty) (\<lambda>am.
             and_then (assign_bonds (snd am)
                         (py_slice block (int first_bond_line + 1)
                            (int first_bond_line + num_bonds + 1))
                         (\<lambda>_. [])) (\<lambda>bonds.
             create_residues parser ignoreH (fst am) bonds (set_order names)))))))))))))"

text \<open>
  What a theorem asks of the iteration order on the names at hand: every name once.
\<close>

definition set_iteration :: "(string list \<Rightarrow> string list) \<Rightarrow> string list \<Rightarrow> bool" where
  "set_iteration set_order names =
     (distinct (set_order names) \<and> set (set_order names) = set names)"

text \<open>\<^verbatim>\<open>get_residues_from_mol2\<close>, lines 136 to 143.\<close>

definition get_residues_from_mol2 ::
  "(string list \<Rightarrow> string list) \<Rightarrow> (string \<Rightarrow> bool \<Rightarrow> bool \<Rightarrow> 'm option) \<Rightarrow> nat \<Rightarrow> nat \<Rightarrow> nat
     \<Rightarrow> string list \<Rightarrow> bool \<Rightarrow> error + 'm residue list" where
  "get_residues_from_mol2 set_order parser mol_line first_atom_line first_bond_line lines ignoreH =
     and_then (py_get lines (mol_line + 2)) (\<lambda>header.
     and_then (py_get (py_split header) 0) (\<lambda>data0.
     and_then (py_int data0) (\<lambda>num_atoms.
     and_then (py_get (py_split header) 1) (\<lambda>data1.
     and_then (py_int data1) (\<lambda>num_bonds.
     residues_from_block set_order parser
       (py_slice lines (int mol_line)
          (int mol_line + int first_atom_line - int mol_line + num_atoms + 1 + num_bonds + 1))
       ignoreH)))))"

text \<open>
  \<^verbatim>\<open>mol2_reader\<close>, from the lines of the file on: the loop over the zipped index
  lists, which stops with the shortest of the three.
\<close>

fun read_records ::
  "(string list \<Rightarrow> string list) \<Rightarrow> (string \<Rightarrow> bool \<Rightarrow> bool \<Rightarrow> 'm option) \<Rightarrow> string list \<Rightarrow> bool
     \<Rightarrow> (nat \<times> nat \<times> nat) list \<Rightarrow> error + 'm residue list" where
  "read_records set_order parser lines ignoreH [] = Inr []"
| "read_records set_order parser lines ignoreH (rec # rest) =
     and_then (get_residues_from_mol2 set_order parser (fst rec) (fst (snd rec))
                 (snd (snd rec)) lines ignoreH) (\<lambda>residues.
     and_then (read_records set_order parser lines ignoreH rest) (\<lambda>molecules.
     Inr (residues @ molecules)))"

definition mol2_reader ::
  "(string list \<Rightarrow> string list) \<Rightarrow> (string \<Rightarrow> bool \<Rightarrow> bool \<Rightarrow> 'm option) \<Rightarrow> string list \<Rightarrow> bool
     \<Rightarrow> error + 'm residue list" where
  "mol2_reader set_order parser lines ignoreH =
     (case get_mol2_records lines of
        (mol_lines, first_atom_lines, first_bond_lines) \<Rightarrow>
          read_records set_order parser lines ignoreH
            (zip mol_lines (zip first_atom_lines first_bond_lines)))"

subsection \<open>Inputs for the worked examples\<close>

text \<open>
  A parser that accepts every block and returns its text: the result of the reader
  then shows what the toolkit's parser is given. And one that fails on the blocks
  naming the residue \<^verbatim>\<open>WAT1\<close>.
\<close>

definition echo_parser :: "string \<Rightarrow> bool \<Rightarrow> bool \<Rightarrow> string option" where
  "echo_parser block sanitize removeHs = Some block"

definition no_water_parser :: "string \<Rightarrow> bool \<Rightarrow> bool \<Rightarrow> string option" where
  "no_water_parser block sanitize removeHs =
     (if re_search ''WAT1'' block then None else Some block)"

text \<open>
  The two-residue block of the spec's end-to-end example: LIG1 with the atoms 5, 6, 7
  and the bond 5-6, WAT1 with the atoms 9, 10 and the bond 9-10, and the bond 7-9
  between the two. Every atom line starts with its id.
\<close>

definition two_residue_block :: "string list" where
  "two_residue_block =
     [''@<TRIPOS>MOLECULE\<newline>'', ''complex\<newline>'', ''5 3\<newline>'', ''SMALL\<newline>'',
      ''USER_CHARGES\<newline>'', ''@<TRIPOS>ATOM\<newline>'',
      ''5 C1 0.0 0.0 0.0 C.3 1 LIG1 0.0\<newline>'',
      ''6 C2 1.5 0.0 0.0 C.3 1 LIG1 0.0\<newline>'',
      ''7 O1 2.0 1.0 0.0 O.3 1 LIG1 0.0\<newline>'',
      ''9 O 5.0 5.0 5.0 O.3 2 WAT1 0.0\<newline>'',
      ''10 H1 5.5 5.5 5.0 H 2 WAT1 0.0\<newline>'',
      ''@<TRIPOS>BOND\<newline>'',
      ''1 5 6 1\<newline>'', ''2 9 10 1\<newline>'', ''3 7 9 1\<newline>'']"

text \<open>
  A file whose header declares one atom and five bonds, and that ends right after the
  BOND marker.
\<close>

definition short_file :: "string list" where
  "short_file =
     [''@<TRIPOS>MOLECULE\<newline>'', ''LIG\<newline>'', ''1 5\<newline>'', ''SMALL\<newline>'',
      ''USER_CHARGES\<newline>'', ''@<TRIPOS>ATOM\<newline>'',
      ''1 C1 0.0 0.0 0.0 C.3 1 LIG1 0.0\<newline>'',
      ''@<TRIPOS>BOND\<newline>'']"

text \<open>
  A file of two molecule records, the second without its BOND section.
\<close>

definition two_record_file :: "string list" where
  "two_record_file =
     [''@<TRIPOS>MOLECULE\<newline>'', ''first\<newline>'', ''2 1\<newline>'', ''SMALL\<newline>'',
      ''USER_CHARGES\<newline>'', ''@<TRIPOS>ATOM\<newline>'',
      ''1 C1 0.0 0.0 0.0 C.3 1 LIG1 0.0\<newline>'',
      ''2 O1 1.4 0.0 0.0 O.3 1 LIG1 0.0\<newline>'',
      ''@<TRIPOS>BOND\<newline>'',
      ''1 1 2 1\<newline>'',
      ''@<TRIPOS>MOLECULE\<newline>'', ''second\<newline>'', ''1 0\<newline>'', ''SMALL\<newline>'',
      ''USER_CHARGES\<newline>'', ''@<TRIPOS>ATOM\<newline>'',
      ''1 O 5.0 5.0 5.0 O.3 1 WAT1 0.0\<newline>'']"

text \<open>
  A block whose atom ids are right-justified, as mol2 files are commonly written.
\<close>

definition padded_block :: "string list" where
  "padded_block =
     [''@<TRIPOS>MOLECULE\<newline>'', ''ligand\<newline>'', ''2 1\<newline>'', ''SMALL\<newline>'',
      ''USER_CHARGES\<newline>'', ''@<TRIPOS>ATOM\<newline>'',
      ''   5 C1 0.0 0.0 0.0 C.3 1 LIG1 0.0\<newline>'',
      ''  12 O1 1.4 0.0 0.0 O.3 1 LIG1 0.0\<newline>'',
      ''@<TRIPOS>BOND\<newline>'',
      ''   1    5   12 1\<newline>'']"

section \<open>Lemmas on the valence repair\<close>

lemma neighbors_loop_hit:
  assumes "common_electrons es (electrons_of tbl m n) = Some k" "k \<noteq> 0"
    "GetBondBetweenAtoms m a n = Some bi"
  shows "neighbors_loop tbl calc a es len i (n # post) m =
     Inr (UpdatePropertyCache calc
                  (if k = 1 then SetBondType m bi DOUBLE
                   else if k = 2 then SetBondType m bi TRIPLE else m))"
  using assms by (simp add: Let_def)

lemma neighbors_loop_pass:
  assumes "common_electrons es (electrons_of tbl m p) = None \<or>
           common_electrons es (electrons_of tbl m p) = Some 0" "i \<noteq> len"
  shows "neighbors_loop tbl calc a es len i (p # rest) m =
         neighbors_loop tbl calc a es len (Suc i) rest m"
  using assms by (auto simp add: Let_def)

lemma neighbors_loop_skip:
  assumes "\<forall>p \<in> set pre. common_electrons es (electrons_of tbl m p) = None \<or>
             common_electrons es (electrons_of tbl m p) = Some 0"
    and "i + length pre \<le> len"
  shows "neighbors_loop tbl calc a es len i (pre @ n # post) m =
         neighbors_loop tbl calc a es len (i + length pre) (n # post) m"
  using assms
proof (induction pre arbitrary: i)
  case Nil
  then show ?case by simp
next
  case (Cons p pre)
  from Cons.prems have il: "i \<noteq> len" by simp
  from Cons.prems have c: "common_electrons es (electrons_of tbl m p) = None
      \<or> common_electrons es (electrons_of tbl m p) = Some 0" by simp
  from Cons.prems have "\<forall>p \<in> set pre. common_electrons es (electrons_of tbl m p) = None \<or>
             common_electrons es (electrons_of tbl m p) = Some 0" by simp
  moreover from Cons.prems have "Suc i + length pre \<le> len" by simp
  ultimately have IH: "neighbors_loop tbl calc a es len (Suc i) (pre @ n # post) m =
         neighbors_loop tbl calc a es len (Suc i + length pre) (n # post) m"
    by (rule Cons.IH)
  have "neighbors_loop tbl calc a es len i ((p # pre) @ n # post) m =
        neighbors_loop tbl calc a es len (Suc i) (pre @ n # post) m"
    using neighbors_loop_pass[OF c il] by simp
  with IH show ?case by simp
qed

lemma bond_between_neighbor:
  "n \<in> set (neighbors_in a bs) \<Longrightarrow>
     \<exists>j. bond_between a n i bs = Some (i + j) \<and> j < length bs \<and>
          ((begin_idx (bs ! j) = a \<and> end_idx (bs ! j) = n) \<or>
           (begin_idx (bs ! j) = n \<and> end_idx (bs ! j) = a))"
proof (induction bs arbitrary: i)
  case Nil
  then show ?case by simp
next
  case (Cons b bs)
  show ?case
  proof (cases "(begin_idx b = a \<and> end_idx b = n) \<or> (begin_idx b = n \<and> end_idx b = a)")
    case True
    then have "bond_between a n i (b # bs) = Some (i + 0) \<and> 0 < length (b # bs) \<and>
          ((begin_idx ((b # bs) ! 0) = a \<and> end_idx ((b # bs) ! 0) = n) \<or>
           (begin_idx ((b # bs) ! 0) = n \<and> end_idx ((b # bs) ! 0) = a))"
      by simp
    then show ?thesis by (rule exI)
  next
    case False
    with Cons.prems have "n \<in> set (neighbors_in a bs)" by (simp split: if_splits)
    from Cons.IH[OF this, of "Suc i"] obtain j where
      j: "bond_between a n (Suc i) bs = Some (Suc i + j)" "j < length bs"
        "(begin_idx (bs ! j) = a \<and> end_idx (bs ! j) = n) \<or>
           (begin_idx (bs ! j) = n \<and> end_idx (bs ! j) = a)" by blast
    with False have "bond_between a n i (b # bs) = Some (i + Suc j) \<and> Suc j < length (b # bs) \<and>
          ((begin_idx ((b # bs) ! Suc j) = a \<and> end_idx ((b # bs) ! Suc j) = n) \<or>
           (begin_idx ((b # bs) ! Suc j) = n \<and> end_idx ((b # bs) ! Suc j) = a))"
      by simp
    then show ?thesis by (rule exI)
  qed
qed


lemma GetBondBetweenAtoms_neighbor:
  assumes "n \<in> set (GetNeighbors m a)"
  shows "\<exists>bi. GetBondBetweenAtoms m a n = Some bi \<and> bi < length (mol_bonds m) \<and>
          ((begin_idx (mol_bonds m ! bi) = a \<and> end_idx (mol_bonds m ! bi) = n) \<or>
           (begin_idx (mol_bonds m ! bi) = n \<and> end_idx (mol_bonds m ! bi) = a))"
proof -
  from assms have "n \<in> set (neighbors_in a (mol_bonds m))" by (simp add: GetNeighbors_def)
  from bond_between_neighbor[OF this, of 0] show ?thesis
    by (simp add: GetBondBetweenAtoms_def)
qed

lemma common_electrons_eq:
  "common_electrons es nes =
     (if set es \<inter> set nes = {} then None else Some (Min (set es \<inter> set nes)))"
proof -
  have s: "set (filter (\<lambda>e. e \<in> set nes) es) = set es \<inter> set nes" by auto
  show ?thesis
  proof (cases "filter (\<lambda>e. e \<in> set nes) es")
    case Nil
    with s have "set es \<inter> set nes = {}" by simp
    with Nil show ?thesis by (simp add: common_electrons_def)
  next
    case (Cons e es')
    with s have "set es \<inter> set nes = set (e # es')" by simp
    with Cons show ?thesis by (simp add: common_electrons_def)
  qed
qed

lemma atom_step_neighbor_path:
  assumes "\<not> (length (electrons_of tbl m a) = 1 \<and> electrons_of tbl m a ! 0 < 0)"
  shows "atom_step tbl calc m a =
     neighbors_loop tbl calc a (electrons_of tbl m a) (length (GetNeighbors m a)) 1
       (GetNeighbors m a) m"
  unfolding atom_step_def Let_def by (simp only: assms if_False)

lemma atom_step_first_hit:
  assumes nb: "\<not> (length (electrons_of tbl m a) = 1 \<and> electrons_of tbl m a ! 0 < 0)"
    and nbrs: "GetNeighbors m a = pre @ n # post"
    and pre: "\<forall>p \<in> set pre. set (electrons_of tbl m a) \<inter> set (electrons_of tbl m p) = {} \<or>
                Min (set (electrons_of tbl m a) \<inter> set (electrons_of tbl m p)) = 0"
    and ne: "set (electrons_of tbl m a) \<inter> set (electrons_of tbl m n) \<noteq> {}"
    and k: "Min (set (electrons_of tbl m a) \<inter> set (electrons_of tbl m n)) = k" "k \<noteq> 0"
    and bi: "GetBondBetweenAtoms m a n = Some bi"
  shows "atom_step tbl calc m a =
            Inr (UpdatePropertyCache calc
                  (if k = 1 then SetBondType m bi DOUBLE
                   else if k = 2 then SetBondType m bi TRIPLE else m))"
proof -
  have pre': "\<forall>p \<in> set pre. common_electrons (electrons_of tbl m a) (electrons_of tbl m p) = None \<or>
      common_electrons (electrons_of tbl m a) (electrons_of tbl m p) = Some 0"
    using pre by (auto simp: common_electrons_eq)
  have kc: "common_electrons (electrons_of tbl m a) (electrons_of tbl m n) = Some k"
    using ne k(1) by (simp add: common_electrons_eq)
  have "atom_step tbl calc m a =
      neighbors_loop tbl calc a (electrons_of tbl m a) (length (pre @ n # post)) 1 (pre @ n # post) m"
    using atom_step_neighbor_path[OF nb] by (simp only: nbrs)
  also have "\<dots> = neighbors_loop tbl calc a (electrons_of tbl m a) (length (pre @ n # post))
      (1 + length pre) (n # post) m"
    by (rule neighbors_loop_skip[OF pre']) simp
  also have "\<dots> = Inr (UpdatePropertyCache calc
                  (if k = 1 then SetBondType m bi DOUBLE
                   else if k = 2 then SetBondType m bi TRIPLE else m))"
    by (rule neighbors_loop_hit[OF kc k(2) bi])
  finally show ?thesis .
qed


lemma refresh_from_length: "length (refresh_from calc m i ats) = length ats"
  by (induction ats arbitrary: i) auto

lemma refresh_from_charges:
  "map formal_charge (refresh_from calc m i ats) = map formal_charge ats"
  by (induction ats arbitrary: i) auto

lemma UpdatePropertyCache_bonds: "mol_bonds (UpdatePropertyCache calc m) = mol_bonds m"
  by (simp add: UpdatePropertyCache_def)

lemma UpdatePropertyCache_charges:
  "map formal_charge (mol_atoms (UpdatePropertyCache calc m)) = map formal_charge (mol_atoms m)"
  by (simp add: UpdatePropertyCache_def refresh_from_charges)

lemma SetFormalCharge_bonds: "mol_bonds (SetFormalCharge m a c) = mol_bonds m"
  by (simp add: SetFormalCharge_def)

lemma SetBondType_atoms: "mol_atoms (SetBondType m bi t) = mol_atoms m"
  by (simp add: SetBondType_def)

lemma charge_after_set:
  assumes "a < length (mol_atoms m)"
  shows "formal_charge (mol_atoms (UpdatePropertyCache calc (SetFormalCharge m a c)) ! a) = c"
proof -
  let ?m' = "UpdatePropertyCache calc (SetFormalCharge m a c)"
  have len: "a < length (mol_atoms ?m')"
    using assms by (simp add: UpdatePropertyCache_def refresh_from_length SetFormalCharge_def)
  have "formal_charge (mol_atoms ?m' ! a) = map formal_charge (mol_atoms ?m') ! a"
    using len by simp
  also have "\<dots> = map formal_charge (mol_atoms (SetFormalCharge m a c)) ! a"
    by (simp only: UpdatePropertyCache_charges)
  also have "\<dots> = c"
    using assms by (simp add: SetFormalCharge_def)
  finally show ?thesis .
qed

lemma neighbors_loop_all_zero:
  assumes "\<forall>n \<in> set ns. 0 \<in> set (electrons_of tbl m n)" and "0 \<in> set es"
  shows "neighbors_loop tbl calc a es len i ns m = Inr m \<or>
         neighbors_loop tbl calc a es len i ns m = Inr (UpdatePropertyCache calc m)"
  using assms(1)
proof (induction ns arbitrary: i)
  case Nil
  then show ?case by simp
next
  case (Cons n ns)
  let ?I = "set es \<inter> set (electrons_of tbl m n)"
  from Cons.prems assms(2) have z: "0 \<in> ?I" by simp
  then have ne: "?I \<noteq> {}" by blast
  have fin: "finite ?I" by simp
  from Min_le[OF fin z] have le: "Min ?I \<le> 0" .
  have c: "common_electrons es (electrons_of tbl m n) = Some (Min ?I)"
    using ne by (simp add: common_electrons_eq)
  show ?case
  proof (cases "Min ?I = 0")
    case True
    with c have "neighbors_loop tbl calc a es len i (n # ns) m =
        neighbors_loop tbl calc a es len (Suc i) ns m" by (simp add: Let_def)
    moreover from Cons.prems have "\<forall>n \<in> set ns. 0 \<in> set (electrons_of tbl m n)" by simp
    from Cons.IH[OF this] have "neighbors_loop tbl calc a es len (Suc i) ns m = Inr m \<or>
         neighbors_loop tbl calc a es len (Suc i) ns m = Inr (UpdatePropertyCache calc m)" .
    ultimately show ?thesis by simp
  next
    case False
    with le have neg: "Min ?I \<noteq> 0" "Min ?I \<noteq> 1" "Min ?I \<noteq> 2" by simp_all
    have "neighbors_loop tbl calc a es len i (n # ns) m = Inr (UpdatePropertyCache calc m)"
      using c neg by (simp add: Let_def split: option.split)
    then show ?thesis by simp
  qed
qed

lemma raised_refl:
  "list_all2 (\<lambda>b b'. begin_idx b' = begin_idx b \<and> end_idx b' = end_idx b \<and>
      (bond_type b' = bond_type b \<or> bond_type b' = DOUBLE \<or> bond_type b' = TRIPLE)) bs bs"
  by (rule list_all2_refl) simp

lemma raised_trans:
  assumes "list_all2 (\<lambda>b b'. begin_idx b' = begin_idx b \<and> end_idx b' = end_idx b \<and>
      (bond_type b' = bond_type b \<or> bond_type b' = DOUBLE \<or> bond_type b' = TRIPLE)) bs bs'"
    and "list_all2 (\<lambda>b b'. begin_idx b' = begin_idx b \<and> end_idx b' = end_idx b \<and>
      (bond_type b' = bond_type b \<or> bond_type b' = DOUBLE \<or> bond_type b' = TRIPLE)) bs' bs''"
  shows "list_all2 (\<lambda>b b'. begin_idx b' = begin_idx b \<and> end_idx b' = end_idx b \<and>
      (bond_type b' = bond_type b \<or> bond_type b' = DOUBLE \<or> bond_type b' = TRIPLE)) bs bs''"
  using assms(1) assms(2) by (rule list_all2_trans[rotated]) auto

lemma raised_update:
  assumes "t = DOUBLE \<or> t = TRIPLE"
  shows "list_all2 (\<lambda>b b'. begin_idx b' = begin_idx b \<and> end_idx b' = end_idx b \<and>
      (bond_type b' = bond_type b \<or> bond_type b' = DOUBLE \<or> bond_type b' = TRIPLE))
      bs (bs[bi := (bs ! bi)\<lparr>bond_type := t\<rparr>])"
proof (cases "bi < length bs")
  case True
  have "list_all2 (\<lambda>b b'. begin_idx b' = begin_idx b \<and> end_idx b' = end_idx b \<and>
      (bond_type b' = bond_type b \<or> bond_type b' = DOUBLE \<or> bond_type b' = TRIPLE))
      (bs[bi := bs ! bi]) (bs[bi := (bs ! bi)\<lparr>bond_type := t\<rparr>])"
    using assms by (intro list_all2_update_cong raised_refl) auto
  then show ?thesis by simp
next
  case False
  then have "bs[bi := (bs ! bi)\<lparr>bond_type := t\<rparr>] = bs" by (simp add: list_update_beyond)
  then show ?thesis by (simp only: raised_refl)
qed

lemma neighbors_loop_raised:
  "neighbors_loop tbl calc a es len i ns m = Inr m' \<Longrightarrow>
   list_all2 (\<lambda>b b'. begin_idx b' = begin_idx b \<and> end_idx b' = end_idx b \<and>
      (bond_type b' = bond_type b \<or> bond_type b' = DOUBLE \<or> bond_type b' = TRIPLE))
      (mol_bonds m) (mol_bonds m')"
proof (induction ns arbitrary: i m)
  case Nil
  then show ?case by (simp add: raised_refl)
next
  case (Cons n ns)
  let ?c = "common_electrons es (electrons_of tbl m n)"
  show ?case
  proof (cases ?c)
    case None
    show ?thesis
    proof (cases "i = len")
      case True
      show ?thesis
      proof (cases es)
        case Nil
        with None True Cons.prems show ?thesis by (simp add: Let_def)
      next
        case (Cons e0 es')
        with None True Cons.prems have
          "neighbors_loop tbl calc a es len (Suc i) ns
             (UpdatePropertyCache calc (SetFormalCharge m a (- e0))) = Inr m'"
          by (simp add: Let_def)
        from Cons.IH[OF this] show ?thesis
          by (simp add: UpdatePropertyCache_bonds SetFormalCharge_bonds)
      qed
    next
      case False
      with None Cons.prems have "neighbors_loop tbl calc a es len (Suc i) ns m = Inr m'"
        by (simp add: Let_def)
      from Cons.IH[OF this] show ?thesis .
    qed
  next
    case (Some k)
    show ?thesis
    proof (cases "k = 0")
      case True
      with Some Cons.prems have "neighbors_loop tbl calc a es len (Suc i) ns m = Inr m'"
        by (simp add: Let_def)
      from Cons.IH[OF this] show ?thesis .
    next
      case False
      show ?thesis
      proof (cases "GetBondBetweenAtoms m a n")
        case None
        with Some False Cons.prems have "m' = UpdatePropertyCache calc m"
          by (simp add: Let_def split: if_splits)
        then show ?thesis by (simp add: UpdatePropertyCache_bonds raised_refl)
      next
        case (Some bi)
        with \<open>?c = Some k\<close> False Cons.prems have
          "m' = UpdatePropertyCache calc
                  (if k = 1 then SetBondType m bi DOUBLE
                   else if k = 2 then SetBondType m bi TRIPLE else m)"
          by (simp add: Let_def)
        then show ?thesis
          by (simp add: UpdatePropertyCache_bonds SetBondType_def raised_refl raised_update)
      qed
    qed
  qed
qed

lemma atom_step_raised:
  assumes "atom_step tbl calc m a = Inr m'"
  shows "list_all2 (\<lambda>b b'. begin_idx b' = begin_idx b \<and> end_idx b' = end_idx b \<and>
      (bond_type b' = bond_type b \<or> bond_type b' = DOUBLE \<or> bond_type b' = TRIPLE))
      (mol_bonds m) (mol_bonds m')"
proof (cases "length (electrons_of tbl m a) = 1 \<and> electrons_of tbl m a ! 0 < 0")
  case True
  with assms have "m' = UpdatePropertyCache calc (SetFormalCharge m a (- (electrons_of tbl m a ! 0)))"
    by (simp add: atom_step_def Let_def)
  then show ?thesis
    by (simp add: UpdatePropertyCache_bonds SetFormalCharge_bonds raised_refl)
next
  case False
  from assms atom_step_neighbor_path[OF False] have
    "neighbors_loop tbl calc a (electrons_of tbl m a) (length (GetNeighbors m a)) 1
       (GetNeighbors m a) m = Inr m'" by simp
  then show ?thesis by (rule neighbors_loop_raised)
qed

lemma atoms_loop_raised:
  "atoms_loop tbl calc as m = Inr m' \<Longrightarrow>
   list_all2 (\<lambda>b b'. begin_idx b' = begin_idx b \<and> end_idx b' = end_idx b \<and>
      (bond_type b' = bond_type b \<or> bond_type b' = DOUBLE \<or> bond_type b' = TRIPLE))
      (mol_bonds m) (mol_bonds m')"
proof (induction as arbitrary: m)
  case Nil
  then show ?case by (simp add: raised_refl)
next
  case (Cons a as)
  from Cons.prems obtain m1 where s: "atom_step tbl calc m a = Inr m1"
    and r: "atoms_loop tbl calc as m1 = Inr m'"
    by (auto split: sum.splits)
  from raised_trans[OF atom_step_raised[OF s] Cons.IH[OF r]] show ?case .
qed

lemma UpdatePropertyCache_length:
  "length (mol_atoms (UpdatePropertyCache calc m)) = length (mol_atoms m)"
  by (simp add: UpdatePropertyCache_def refresh_from_length)

lemma UpdatePropertyCache_charge_nth:
  assumes "a < length (mol_atoms m)"
  shows "formal_charge (mol_atoms (UpdatePropertyCache calc m) ! a) =
         formal_charge (mol_atoms m ! a)"
proof -
  have "formal_charge (mol_atoms (UpdatePropertyCache calc m) ! a) =
        map formal_charge (mol_atoms (UpdatePropertyCache calc m)) ! a"
    using assms by (simp add: UpdatePropertyCache_length)
  also have "\<dots> = map formal_charge (mol_atoms m) ! a"
    by (simp only: UpdatePropertyCache_charges)
  also have "\<dots> = formal_charge (mol_atoms m ! a)" using assms by simp
  finally show ?thesis .
qed

lemma SetFormalCharge_other:
  "a \<noteq> b \<Longrightarrow> formal_charge (mol_atoms (SetFormalCharge m b c) ! a) =
     formal_charge (mol_atoms m ! a)"
  by (simp add: SetFormalCharge_def)

lemma SetFormalCharge_length:
  "length (mol_atoms (SetFormalCharge m b c)) = length (mol_atoms m)"
  by (simp add: SetFormalCharge_def)

lemma neighbors_loop_other_charge:
  assumes "a \<noteq> b"
  shows "neighbors_loop tbl calc b es len i ns m = Inr m' \<Longrightarrow> a < length (mol_atoms m) \<Longrightarrow>
   length (mol_atoms m') = length (mol_atoms m) \<and>
   formal_charge (mol_atoms m' ! a) = formal_charge (mol_atoms m ! a)"
proof (induction ns arbitrary: i m)
  case Nil
  then show ?case by simp
next
  case (Cons n ns)
  let ?c = "common_electrons es (electrons_of tbl m n)"
  show ?case
  proof (cases ?c)
    case None
    show ?thesis
    proof (cases "i = len")
      case True
      show ?thesis
      proof (cases es)
        case Nil
        with None True Cons.prems show ?thesis by (simp add: Let_def)
      next
        case (Cons e0 es')
        let ?m1 = "UpdatePropertyCache calc (SetFormalCharge m b (- e0))"
        from Cons None True Cons.prems(1) have
          r: "neighbors_loop tbl calc b es len (Suc i) ns ?m1 = Inr m'"
          by (simp add: Let_def)
        have l1: "length (mol_atoms ?m1) = length (mol_atoms m)"
          by (simp add: UpdatePropertyCache_length SetFormalCharge_length)
        with Cons.prems(2) have a1: "a < length (mol_atoms ?m1)" by simp
        have c1: "formal_charge (mol_atoms ?m1 ! a) = formal_charge (mol_atoms m ! a)"
          using Cons.prems(2) assms
          by (simp add: UpdatePropertyCache_charge_nth SetFormalCharge_length SetFormalCharge_other)
        from Cons.IH[OF r a1] l1 c1 show ?thesis by simp
      qed
    next
      case False
      with None Cons.prems(1) have "neighbors_loop tbl calc b es len (Suc i) ns m = Inr m'"
        by (simp add: Let_def)
      from Cons.IH[OF this Cons.prems(2)] show ?thesis .
    qed
  next
    case (Some k)
    show ?thesis
    proof (cases "k = 0")
      case True
      with Some Cons.prems(1) have "neighbors_loop tbl calc b es len (Suc i) ns m = Inr m'"
        by (simp add: Let_def)
      from Cons.IH[OF this Cons.prems(2)] show ?thesis .
    next
      case False
      show ?thesis
      proof (cases "GetBondBetweenAtoms m b n")
        case None
        with Some False Cons.prems(1) have "m' = UpdatePropertyCache calc m"
          by (simp add: Let_def split: if_splits)
        then show ?thesis using Cons.prems(2)
          by (simp add: UpdatePropertyCache_length UpdatePropertyCache_charge_nth)
      next
        case (Some bi)
        with \<open>?c = Some k\<close> False Cons.prems(1) have
          "m' = UpdatePropertyCache calc
                  (if k = 1 then SetBondType m bi DOUBLE
                   else if k = 2 then SetBondType m bi TRIPLE else m)"
          by (simp add: Let_def)
        then show ?thesis using Cons.prems(2)
          by (simp add: UpdatePropertyCache_length UpdatePropertyCache_charge_nth SetBondType_atoms)
      qed
    qed
  qed
qed

lemma atom_step_other_charge:
  assumes "atom_step tbl calc m b = Inr m'" and "a \<noteq> b" and "a < length (mol_atoms m)"
  shows "length (mol_atoms m') = length (mol_atoms m) \<and>
         formal_charge (mol_atoms m' ! a) = formal_charge (mol_atoms m ! a)"
proof (cases "length (electrons_of tbl m b) = 1 \<and> electrons_of tbl m b ! 0 < 0")
  case True
  with assms(1) have "m' = UpdatePropertyCache calc (SetFormalCharge m b (- (electrons_of tbl m b ! 0)))"
    by (simp add: atom_step_def Let_def)
  then show ?thesis using assms(2,3)
    by (simp add: UpdatePropertyCache_length UpdatePropertyCache_charge_nth
        SetFormalCharge_length SetFormalCharge_other)
next
  case False
  from assms(1) atom_step_neighbor_path[OF False] have
    "neighbors_loop tbl calc b (electrons_of tbl m b) (length (GetNeighbors m b)) 1
       (GetNeighbors m b) m = Inr m'" by simp
  from neighbors_loop_other_charge[OF assms(2) this assms(3)] show ?thesis .
qed

lemma atoms_loop_other_charge:
  "atoms_loop tbl calc bs m = Inr m' \<Longrightarrow> a \<notin> set bs \<Longrightarrow> a < length (mol_atoms m) \<Longrightarrow>
   formal_charge (mol_atoms m' ! a) = formal_charge (mol_atoms m ! a)"
proof (induction bs arbitrary: m)
  case Nil
  then show ?case by simp
next
  case (Cons b bs)
  from Cons.prems(1) obtain m1 where s: "atom_step tbl calc m b = Inr m1"
    and r: "atoms_loop tbl calc bs m1 = Inr m'"
    by (auto split: sum.splits)
  from Cons.prems(2) have ab: "a \<noteq> b" and nb: "a \<notin> set bs" by auto
  from atom_step_other_charge[OF s ab Cons.prems(3)] have
    l: "length (mol_atoms m1) = length (mol_atoms m)"
    and c: "formal_charge (mol_atoms m1 ! a) = formal_charge (mol_atoms m ! a)" by simp_all
  from Cons.prems(3) l have "a < length (mol_atoms m1)" by simp
  from Cons.IH[OF r nb this] c show ?case by simp
qed

subsection \<open>The worked examples, run\<close>

lemmas repair_defs =
  update_bonds_and_charges_def upt_rec atom_step_def electrons_of_def GetTotalValence_def
  GetAtomicNum_def mk_atom_def mk_bond_def valence_list_def GetNeighbors_def
  common_electrons_def GetBondBetweenAtoms_def SetBondType_def SetFormalCharge_def
  UpdatePropertyCache_def explicit_valence_def Let_def

lemma ethylene_run:
  "update_bonds_and_charges valence_list explicit_valence (Inr :: Mol \<Rightarrow> error + Mol) ethylene =
     Inr \<lparr>mol_atoms = [mk_atom 6 4, mk_atom 6 4, mk_atom 1 1, mk_atom 1 1, mk_atom 1 1,
                       mk_atom 1 1],
          mol_bonds = [mk_bond 0 2 SINGLE, mk_bond 0 1 DOUBLE, mk_bond 0 3 SINGLE,
                       mk_bond 1 4 SINGLE, mk_bond 1 5 SINGLE]\<rparr>"
  by (simp add: repair_defs ethylene_def)

lemma cpn_run:
  "update_bonds_and_charges valence_list explicit_valence (Inr :: Mol \<Rightarrow> error + Mol) cpn =
     Inr \<lparr>mol_atoms = [mk_atom 6 2, mk_atom 15 5, mk_atom 7 3],
          mol_bonds = [mk_bond 1 2 TRIPLE, mk_bond 0 1 DOUBLE]\<rparr>"
  by (simp add: repair_defs cpn_def)

lemma fssf_run:
  "update_bonds_and_charges valence_list explicit_valence (Inr :: Mol \<Rightarrow> error + Mol) fssf =
     Inr fssf"
  by (simp add: repair_defs fssf_def)

section \<open>The claims on the valence repair\<close>

text \<open>
  C6. When the atom at hand has exactly one deficit and that deficit is negative, its
  pass through the loop body returns (no exception), the atom's formal charge is then
  the magnitude of the deficit, a positive number, and the bond list is the one before
  the pass. The passes of the atoms that come after it leave this charge as it is.
  Nothing is asked of the atom's neighbours, so the atom may have none.
\<close>

theorem single_negative_deficit_gets_positive_charge:
  assumes "electrons_of tbl m a = [d]" and "d < 0" and "a < length (mol_atoms m)"
  shows "\<exists>m'. atom_step tbl calc m a = Inr m' \<and>
           formal_charge (mol_atoms m' ! a) = - d \<and> 0 < - d \<and>
           mol_bonds m' = mol_bonds m \<and>
           (\<forall>rest m''. a \<notin> set rest \<and> atoms_loop tbl calc rest m' = Inr m'' \<longrightarrow>
              formal_charge (mol_atoms m'' ! a) = - d)"
proof -
  let ?m' = "UpdatePropertyCache calc (SetFormalCharge m a (- d))"
  have s: "atom_step tbl calc m a = Inr ?m'"
    using assms(1,2) by (simp add: atom_step_def Let_def)
  have c: "formal_charge (mol_atoms ?m' ! a) = - d"
    using assms(3) by (rule charge_after_set)
  have p: "0 < - d" using assms(2) by simp
  have b: "mol_bonds ?m' = mol_bonds m"
    by (simp add: UpdatePropertyCache_bonds SetFormalCharge_bonds)
  have l: "a < length (mol_atoms ?m')"
    using assms(3) by (simp add: UpdatePropertyCache_length SetFormalCharge_length)
  have "\<forall>rest m''. a \<notin> set rest \<and> atoms_loop tbl calc rest ?m' = Inr m'' \<longrightarrow>
              formal_charge (mol_atoms m'' ! a) = - d"
    using atoms_loop_other_charge[OF _ _ l] c by auto
  with s c p b show ?thesis by blast
qed

text \<open>The lone iron atom: no neighbour, the single deficit -1, the charge +1.\<close>

theorem single_negative_deficit_witness:
  "GetNeighbors iron 0 = [] \<and> electrons_of valence_list iron 0 = [- 1] \<and>
   (\<exists>m'. atom_step valence_list explicit_valence iron 0 = Inr m' \<and>
      formal_charge (mol_atoms m' ! 0) = 1 \<and> mol_bonds m' = mol_bonds iron)"
proof -
  have n: "GetNeighbors iron 0 = []" by (simp add: GetNeighbors_def iron_def)
  have e: "electrons_of valence_list iron 0 = [- 1]"
    by (simp add: electrons_of_def GetTotalValence_def GetAtomicNum_def iron_def mk_atom_def
        valence_list_def)
  have d: "(- 1 :: int) < 0" by simp
  have a: "0 < length (mol_atoms iron)" by (simp add: iron_def)
  from single_negative_deficit_gets_positive_charge[OF e d a, of explicit_valence]
  have "\<exists>m'. atom_step valence_list explicit_valence iron 0 = Inr m' \<and>
      formal_charge (mol_atoms m' ! 0) = 1 \<and> mol_bonds m' = mol_bonds iron" by auto
  with n e show ?thesis by blast
qed

text \<open>
  C3, as the spec states it, fails: the sulfur of sulfuryl fluoride has the deficits
  -2, 0 and 2, so 0 is among them, and yet its pass gives it the formal charge +2 (its
  last neighbour, an oxygen, shares no deficit with it, and the charge is the negated
  first deficit).
\<close>

theorem zero_deficit_counterexample:
  "0 \<in> set (electrons_of valence_list so2f2 0) \<and>
   formal_charge (mol_atoms so2f2 ! 0) = 0 \<and>
   atom_step valence_list explicit_valence so2f2 0 =
     Inr (so2f2\<lparr>mol_atoms := (mol_atoms so2f2)[0 := (mk_atom 16 4)\<lparr>formal_charge := 2\<rparr>]\<rparr>)"
  by (simp add: atom_step_def electrons_of_def GetTotalValence_def GetAtomicNum_def so2f2_def
      mk_atom_def mk_bond_def valence_list_def GetNeighbors_def common_electrons_def
      UpdatePropertyCache_def SetFormalCharge_def explicit_valence_def Let_def)

text \<open>
  C3, amended. When 0 is among the deficits of the atom and among the deficits of each
  of its neighbours, the atom's pass returns and mutates neither a bond nor a charge:
  the molecule is the one before the pass, at most with its valence cache refreshed.
\<close>

theorem zero_deficit_all_neighbors_no_mutation:
  assumes "0 \<in> set (electrons_of tbl m a)"
    and "\<forall>n \<in> set (GetNeighbors m a). 0 \<in> set (electrons_of tbl m n)"
  shows "\<exists>m'. atom_step tbl calc m a = Inr m' \<and>
           (m' = m \<or> m' = UpdatePropertyCache calc m) \<and>
           mol_bonds m' = mol_bonds m \<and>
           map formal_charge (mol_atoms m') = map formal_charge (mol_atoms m)"
proof -
  have nb: "\<not> (length (electrons_of tbl m a) = 1 \<and> electrons_of tbl m a ! 0 < 0)"
  proof
    assume h: "length (electrons_of tbl m a) = 1 \<and> electrons_of tbl m a ! 0 < 0"
    then obtain e where e: "electrons_of tbl m a = [e]"
      by (cases "electrons_of tbl m a") auto
    with assms(1) have "e = 0" by simp
    with h e show False by simp
  qed
  from neighbors_loop_all_zero[OF assms(2) assms(1)] atom_step_neighbor_path[OF nb]
  have "atom_step tbl calc m a = Inr m \<or> atom_step tbl calc m a = Inr (UpdatePropertyCache calc m)"
    by simp
  then show ?thesis
  proof
    assume "atom_step tbl calc m a = Inr m"
    then show ?thesis by simp
  next
    assume "atom_step tbl calc m a = Inr (UpdatePropertyCache calc m)"
    then show ?thesis by (simp add: UpdatePropertyCache_bonds UpdatePropertyCache_charges)
  qed
qed

text \<open>Water: the oxygen and both hydrogens have the deficit 0.\<close>

theorem zero_deficit_all_neighbors_witness:
  "0 \<in> set (electrons_of valence_list water 0) \<and>
   GetNeighbors water 0 = [1, 2] \<and>
   0 \<in> set (electrons_of valence_list water 1) \<and>
   0 \<in> set (electrons_of valence_list water 2) \<and>
   (\<exists>m'. atom_step valence_list explicit_valence water 0 = Inr m' \<and>
           mol_bonds m' = mol_bonds water \<and>
           map formal_charge (mol_atoms m') = map formal_charge (mol_atoms water))"
proof -
  have e0: "0 \<in> set (electrons_of valence_list water 0)"
    and e1: "0 \<in> set (electrons_of valence_list water 1)"
    and e2: "0 \<in> set (electrons_of valence_list water 2)"
    by (simp_all add: electrons_of_def GetTotalValence_def GetAtomicNum_def water_def mk_atom_def
        valence_list_def)
  have n: "GetNeighbors water 0 = [1, 2]"
    by (simp add: GetNeighbors_def water_def mk_bond_def)
  have all: "\<forall>n \<in> set (GetNeighbors water 0). 0 \<in> set (electrons_of valence_list water n)"
    using e1 e2 by (simp add: n)
  from zero_deficit_all_neighbors_no_mutation[OF e0 all, of explicit_valence]
  have "\<exists>m'. atom_step valence_list explicit_valence water 0 = Inr m' \<and>
           mol_bonds m' = mol_bonds water \<and>
           map formal_charge (mol_atoms m') = map formal_charge (mol_atoms water)" by blast
  with e0 e1 e2 n show ?thesis by blast
qed

text \<open>
  C2, as the spec states it, fails. In F-S-S-F the first sulfur and its neighbour, the
  second sulfur, share the deficits 0, 2 and 4: the intersection is neither empty nor
  the set of 0 alone, and its least positive member is 2. The code takes the least
  member, 0, and passes the neighbour by; no bond becomes triple, in the sulfur's pass
  or in the whole repair.
\<close>

theorem common_deficit_counterexample:
  "GetNeighbors fssf 1 = [0, 2] \<and>
   set (electrons_of valence_list fssf 1) \<inter> set (electrons_of valence_list fssf 2) = {0, 2, 4} \<and>
   atom_step valence_list explicit_valence fssf 1 = Inr fssf \<and>
   update_bonds_and_charges valence_list explicit_valence (Inr :: Mol \<Rightarrow> error + Mol) fssf
     = Inr fssf"
proof -
  have n: "GetNeighbors fssf 1 = [0, 2]"
    by (simp add: GetNeighbors_def fssf_def mk_bond_def)
  have i: "set (electrons_of valence_list fssf 1) \<inter> set (electrons_of valence_list fssf 2)
      = {0, 2, 4}"
    by (simp add: electrons_of_def GetTotalValence_def GetAtomicNum_def fssf_def mk_atom_def
        valence_list_def)
  have s: "atom_step valence_list explicit_valence fssf 1 = Inr fssf"
    by (simp add: repair_defs fssf_def)
  from n i s fssf_run show ?thesis by blast
qed

text \<open>
  C2, amended. Take an atom on the neighbour path (not the lone negative deficit of
  step 1), and the first of its neighbours, in their order, whose deficits share a
  member with the atom's and whose least shared deficit \<open>k\<close> is not 0; the neighbours
  before it share no deficit with the atom or have 0 as their least shared one. Then
  the pass returns; the bond between the two atoms exists and is set to double when
  \<open>k = 1\<close>, to triple when \<open>k = 2\<close>, and is left as it is otherwise; the valence cache
  is refreshed; and nothing else happens, whatever neighbours come after.
\<close>

theorem first_compatible_neighbor_wins:
  assumes "\<not> (length (electrons_of tbl m a) = 1 \<and> electrons_of tbl m a ! 0 < 0)"
    and "GetNeighbors m a = pre @ n # post"
    and "\<forall>p \<in> set pre. set (electrons_of tbl m a) \<inter> set (electrons_of tbl m p) = {} \<or>
                Min (set (electrons_of tbl m a) \<inter> set (electrons_of tbl m p)) = 0"
    and "set (electrons_of tbl m a) \<inter> set (electrons_of tbl m n) \<noteq> {}"
    and "Min (set (electrons_of tbl m a) \<inter> set (electrons_of tbl m n)) = k"
    and "k \<noteq> 0"
  shows "\<exists>bi. GetBondBetweenAtoms m a n = Some bi \<and> bi < length (mol_bonds m) \<and>
          ((begin_idx (mol_bonds m ! bi) = a \<and> end_idx (mol_bonds m ! bi) = n) \<or>
           (begin_idx (mol_bonds m ! bi) = n \<and> end_idx (mol_bonds m ! bi) = a)) \<and>
          atom_step tbl calc m a =
            Inr (UpdatePropertyCache calc
                  (if k = 1 then SetBondType m bi DOUBLE
                   else if k = 2 then SetBondType m bi TRIPLE else m))"
proof -
  from assms(2) have "n \<in> set (GetNeighbors m a)" by simp
  from GetBondBetweenAtoms_neighbor[OF this] obtain bi where
    bi: "GetBondBetweenAtoms m a n = Some bi" "bi < length (mol_bonds m)"
      "(begin_idx (mol_bonds m ! bi) = a \<and> end_idx (mol_bonds m ! bi) = n) \<or>
       (begin_idx (mol_bonds m ! bi) = n \<and> end_idx (mol_bonds m ! bi) = a)" by blast
  from atom_step_first_hit[OF assms bi(1)] bi show ?thesis by blast
qed

text \<open>
  Ethylene: the first carbon passes its hydrogen by, meets the other carbon with the
  shared deficit 1, and their bond becomes double; the hydrogen after it is not read.
\<close>

theorem first_compatible_neighbor_witness:
  "GetNeighbors ethylene 0 = [2] @ 1 # [3] \<and>
   set (electrons_of valence_list ethylene 0) \<inter> set (electrons_of valence_list ethylene 2) = {} \<and>
   Min (set (electrons_of valence_list ethylene 0) \<inter> set (electrons_of valence_list ethylene 1)) = 1 \<and>
   GetBondBetweenAtoms ethylene 0 1 = Some 1 \<and>
   atom_step valence_list explicit_valence ethylene 0 =
     Inr (UpdatePropertyCache explicit_valence (SetBondType ethylene 1 DOUBLE))"
proof -
  have e0: "electrons_of valence_list ethylene 0 = [1]"
    and e1: "electrons_of valence_list ethylene 1 = [1]"
    and e2: "electrons_of valence_list ethylene 2 = [0]"
    by (simp_all add: electrons_of_def GetTotalValence_def GetAtomicNum_def ethylene_def
        mk_atom_def valence_list_def)
  have nb: "\<not> (length (electrons_of valence_list ethylene 0) = 1 \<and>
      electrons_of valence_list ethylene 0 ! 0 < 0)" by (simp add: e0)
  have n: "GetNeighbors ethylene 0 = [2] @ 1 # [3]"
    by (simp add: GetNeighbors_def ethylene_def mk_bond_def)
  have pre: "\<forall>p \<in> set [2]. set (electrons_of valence_list ethylene 0) \<inter>
      set (electrons_of valence_list ethylene p) = {} \<or>
      Min (set (electrons_of valence_list ethylene 0) \<inter> set (electrons_of valence_list ethylene p)) = 0"
    by (simp del: One_nat_def add: e0 e2)
  have ne: "set (electrons_of valence_list ethylene 0) \<inter> set (electrons_of valence_list ethylene 1) \<noteq> {}"
    by (simp del: One_nat_def add: e0 e1)
  have k: "Min (set (electrons_of valence_list ethylene 0) \<inter> set (electrons_of valence_list ethylene 1)) = 1"
    by (simp del: One_nat_def add: e0 e1)
  have k0: "(1::int) \<noteq> 0" by simp
  have b: "GetBondBetweenAtoms ethylene 0 1 = Some 1"
    by (simp add: GetBondBetweenAtoms_def ethylene_def mk_bond_def)
  from first_compatible_neighbor_wins[OF nb n pre ne k k0, of explicit_valence] b
  have "atom_step valence_list explicit_valence ethylene 0 =
     Inr (UpdatePropertyCache explicit_valence (SetBondType ethylene 1 DOUBLE))" by simp
  moreover have "set (electrons_of valence_list ethylene 0) \<inter>
      set (electrons_of valence_list ethylene 2) = {}" by (simp del: One_nat_def add: e0 e2)
  ultimately show ?thesis using n k b by blast
qed



text \<open>
  C7, as the spec states it, fails in its second half. A carbon triply bonded to a
  phosphorus that carries a nitrogen: the carbon's pass finds the shared deficit 1 and
  sets the triple bond to double; the phosphorus then spends its need on the nitrogen.
  The bond between carbon and phosphorus ends below its initial order.
\<close>

theorem triple_bond_lowered_counterexample:
  "update_bonds_and_charges valence_list explicit_valence (Inr :: Mol \<Rightarrow> error + Mol) cpn =
     Inr \<lparr>mol_atoms = [mk_atom 6 2, mk_atom 15 5, mk_atom 7 3],
          mol_bonds = [mk_bond 1 2 TRIPLE, mk_bond 0 1 DOUBLE]\<rparr> \<and>
   mol_bonds cpn ! 1 = mk_bond 0 1 TRIPLE \<and>
   bond_order2 DOUBLE < bond_order2 TRIPLE"
proof -
  have "mol_bonds cpn ! 1 = mk_bond 0 1 TRIPLE" by (simp add: cpn_def)
  with cpn_run show ?thesis by simp
qed

text \<open>
  C7, amended. When update_bonds_and_charges returns, the molecule its loop over the
  atoms hands to the toolkit's sanitization has the bonds of the input, position by
  position: the same two end atoms, and a type that is the initial one, or double, or
  triple. So no edge is added or removed, and every bond whose initial order is at most
  that of a double bond ends with an order that is not lower.
\<close>

theorem repair_keeps_edges_and_bonds_up_to_double:
  assumes "update_bonds_and_charges tbl calc sanitize m = Inr r"
  shows "\<exists>m'. atoms_loop tbl calc [0..<length (mol_atoms m)] m = Inr m' \<and>
           sanitize m' = Inr r \<and>
           list_all2 (\<lambda>b b'. begin_idx b' = begin_idx b \<and> end_idx b' = end_idx b \<and>
               (bond_type b' = bond_type b \<or> bond_type b' = DOUBLE \<or> bond_type b' = TRIPLE) \<and>
               (bond_order2 (bond_type b) \<le> bond_order2 DOUBLE \<longrightarrow>
                  bond_order2 (bond_type b) \<le> bond_order2 (bond_type b')))
             (mol_bonds m) (mol_bonds m')"
proof -
  from assms obtain m' where l: "atoms_loop tbl calc [0..<length (mol_atoms m)] m = Inr m'"
    and s: "sanitize m' = Inr r"
    by (auto simp: update_bonds_and_charges_def split: sum.splits)
  have "list_all2 (\<lambda>b b'. begin_idx b' = begin_idx b \<and> end_idx b' = end_idx b \<and>
               (bond_type b' = bond_type b \<or> bond_type b' = DOUBLE \<or> bond_type b' = TRIPLE) \<and>
               (bond_order2 (bond_type b) \<le> bond_order2 DOUBLE \<longrightarrow>
                  bond_order2 (bond_type b) \<le> bond_order2 (bond_type b')))
             (mol_bonds m) (mol_bonds m')"
  proof (rule list_all2_mono[OF atoms_loop_raised[OF l]])
    fix b b' :: Bond
    assume h: "begin_idx b' = begin_idx b \<and> end_idx b' = end_idx b \<and>
       (bond_type b' = bond_type b \<or> bond_type b' = DOUBLE \<or> bond_type b' = TRIPLE)"
    have "bond_order2 (bond_type b) \<le> bond_order2 DOUBLE \<longrightarrow>
                  bond_order2 (bond_type b) \<le> bond_order2 (bond_type b')"
      using h by (cases "bond_type b") auto
    with h show "begin_idx b' = begin_idx b \<and> end_idx b' = end_idx b \<and>
               (bond_type b' = bond_type b \<or> bond_type b' = DOUBLE \<or> bond_type b' = TRIPLE) \<and>
               (bond_order2 (bond_type b) \<le> bond_order2 DOUBLE \<longrightarrow>
                  bond_order2 (bond_type b) \<le> bond_order2 (bond_type b'))" by blast
  qed
  with l s show ?thesis by blast
qed

text \<open>Ethylene: the edges stay, and the bond between the carbons goes from single to double.\<close>

theorem repair_keeps_edges_witness:
  "update_bonds_and_charges valence_list explicit_valence (Inr :: Mol \<Rightarrow> error + Mol) ethylene =
     Inr \<lparr>mol_atoms = [mk_atom 6 4, mk_atom 6 4, mk_atom 1 1, mk_atom 1 1, mk_atom 1 1,
                       mk_atom 1 1],
          mol_bonds = [mk_bond 0 2 SINGLE, mk_bond 0 1 DOUBLE, mk_bond 0 3 SINGLE,
                       mk_bond 1 4 SINGLE, mk_bond 1 5 SINGLE]\<rparr> \<and>
   list_all2 (\<lambda>b b'. begin_idx b' = begin_idx b \<and> end_idx b' = end_idx b \<and>
               (bond_type b' = bond_type b \<or> bond_type b' = DOUBLE \<or> bond_type b' = TRIPLE) \<and>
               (bond_order2 (bond_type b) \<le> bond_order2 DOUBLE \<longrightarrow>
                  bond_order2 (bond_type b) \<le> bond_order2 (bond_type b')))
     (mol_bonds ethylene)
     [mk_bond 0 2 SINGLE, mk_bond 0 1 DOUBLE, mk_bond 0 3 SINGLE, mk_bond 1 4 SINGLE,
      mk_bond 1 5 SINGLE]"
proof -
  from repair_keeps_edges_and_bonds_up_to_double[OF ethylene_run] ethylene_run
  show ?thesis by auto
qed

section \<open>Lemmas on the mol2 reader\<close>

declare py_str.simps [simp del]

lemmas mol2_defs =
  residues_from_block_def get_mol2_records_def py_get_def py_split_def is_space_def
  py_int_def digit_val_def py_slice_def clamp_index_def dict_get_def residue_mol2_block_def
  echo_parser_def py_str.simps Let_def

lemma py_slice_to_end:
  assumes "lo \<le> length xs" and "int (length xs) \<le> hi"
  shows "py_slice xs (int lo) hi = drop lo xs"
  using assms by (simp add: py_slice_def clamp_index_def Let_def)

lemma case_and_then:
  "(case and_then r f of Inl e \<Rightarrow> Inl e | Inr x \<Rightarrow> g x) =
   and_then r (\<lambda>y. case f y of Inl e \<Rightarrow> Inl e | Inr x \<Rightarrow> g x)"
  by (cases r) simp_all

lemma echo_parser_apply: "echo_parser b True h = Some b"
  by (simp add: echo_parser_def)

lemma create_residues_any_parser:
  "create_residues p h atoms bonds names =
     (case create_residues echo_parser h atoms bonds names of
        Inl e \<Rightarrow> Inl e
      | Inr blocks \<Rightarrow>
          Inr (List.map_filter (\<lambda>r. map_option (Residue (resname r)) (p (rdmol r) True h))
                 blocks))"
proof (induction names)
  case Nil
  then show ?case by (simp add: List.map_filter_simps)
next
  case (Cons name names)
  show ?case
  proof (cases "renumber_atoms 0 (atoms name) Map.empty")
    case (Inl e)
    then show ?thesis by simp
  next
    case (Inr r)
    note ra = this
    show ?thesis
    proof (cases "renumber_bonds (snd r) 0 (bonds name)")
      case (Inl e)
      with ra show ?thesis by simp
    next
      case (Inr new_bonds)
      note rb = this
      show ?thesis
      proof (cases "create_residues echo_parser h atoms bonds names")
        case (Inl e)
        with ra rb Cons.IH show ?thesis by simp
      next
        case (Inr blocks)
        with ra rb Cons.IH show ?thesis
          by (cases "p (residue_mol2_block name (fst r) new_bonds) True h")
             (simp_all add: echo_parser_apply List.map_filter_simps)
      qed
    qed
  qed
qed


lemma drop_length_append: "drop (length xs) (xs @ ys) = ys"
  by simp

lemma split_from_token:
  "\<forall>c \<in> set t. \<not> is_space c \<Longrightarrow> split_from cur (t @ r) = split_from (cur @ t) r"
  by (induction t arbitrary: cur) auto

lemma py_split_first_token:
  assumes "t \<noteq> []" and "\<forall>c \<in> set t. \<not> is_space c" and "r = [] \<or> is_space (hd r)"
  shows "py_split (t @ r) = t # py_split r"
proof -
  have "py_split (t @ r) = split_from t r"
    using split_from_token[OF assms(2), of "[]" r] by (simp add: py_split_def)
  also have "\<dots> = t # py_split r"
    using assms(1,3) by (cases r) (auto simp: py_split_def)
  finally show ?thesis .
qed

lemma py_split_unpadded:
  assumes "line \<noteq> []" and "\<not> is_space (hd line)"
  shows "py_split line =
     takeWhile (\<lambda>c. \<not> is_space c) line # py_split (dropWhile (\<lambda>c. \<not> is_space c) line)"
proof -
  let ?t = "takeWhile (\<lambda>c. \<not> is_space c) line"
  let ?r = "dropWhile (\<lambda>c. \<not> is_space c) line"
  from assms have t: "?t \<noteq> []" by (cases line) auto
  have ns: "\<forall>c \<in> set ?t. \<not> is_space c" by (auto dest: set_takeWhileD)
  have r: "?r = [] \<or> is_space (hd ?r)"
    using hd_dropWhile[of "\<lambda>c. \<not> is_space c" line] by auto
  from py_split_first_token[OF t ns r] show ?thesis by simp
qed

lemma digit_not_space: "k < 10 \<Longrightarrow> \<not> is_space (''0123456789'' ! k)"
proof -
  assume "k < 10"
  then have "''0123456789'' ! k \<in> set ''0123456789''" by (intro nth_mem) simp
  moreover have "\<forall>c \<in> set ''0123456789''. \<not> is_space c" by (simp add: is_space_def)
  ultimately show ?thesis by blast
qed

lemma py_str_digits: "py_str n \<noteq> [] \<and> (\<forall>c \<in> set (py_str n). \<not> is_space c)"
proof (induction n rule: py_str.induct)
  case (1 n)
  show ?case
  proof (cases "n < 10")
    case True
    then have "py_str n = [''0123456789'' ! n]" by (subst py_str.simps) simp
    then show ?thesis using digit_not_space[OF True] by simp
  next
    case False
    have m: "n mod 10 < 10" by simp
    from False 1 have IH: "py_str (n div 10) \<noteq> [] \<and> (\<forall>c \<in> set (py_str (n div 10)). \<not> is_space c)"
      by simp
    have e: "py_str n = py_str (n div 10) @ [''0123456789'' ! (n mod 10)]"
      using False by (subst py_str.simps) simp
    show ?thesis using IH digit_not_space[OF m] by (simp only: e) auto
  qed
qed

text \<open>
  What renumber_atoms does on atom lines that start with their id: every new line has
  the new id, counted from \<open>i + 1\<close>, as its first field, and the other fields of the
  old line after it.
\<close>

lemma renumber_atoms_unpadded:
  assumes "\<forall>line \<in> set ls. line \<noteq> [] \<and> \<not> is_space (hd line)"
  shows "\<exists>new m'. renumber_atoms i ls m = Inr (new, m') \<and> length new = length ls \<and>
           (\<forall>j < length ls.
              py_split (new ! j) = py_str (i + j + 1) # tl (py_split (ls ! j)))"
  using assms
proof (induction ls arbitrary: i m)
  case Nil
  then show ?case by simp
next
  case (Cons line ls)
  let ?t = "takeWhile (\<lambda>c. \<not> is_space c) line"
  let ?r = "dropWhile (\<lambda>c. \<not> is_space c) line"
  from Cons.prems have l: "line \<noteq> []" "\<not> is_space (hd line)" by simp_all
  have sp: "py_split line = ?t # py_split ?r" by (rule py_split_unpadded[OF l])
  then have g: "py_get (py_split line) 0 = Inr ?t" by (simp add: py_get_def)
  have "drop (length ?t) (?t @ ?r) = ?r" by (rule drop_length_append)
  then have dr: "drop (length ?t) line = ?r" by simp
  have r: "?r = [] \<or> is_space (hd ?r)"
    using hd_dropWhile[of "\<lambda>c. \<not> is_space c" line] by auto
  have new0: "py_split (py_str (i + 1) @ ?r) = py_str (i + 1) # py_split ?r"
    using py_str_digits[of "i + 1"] r by (intro py_split_first_token) auto
  from Cons.prems have "\<forall>line \<in> set ls. line \<noteq> [] \<and> \<not> is_space (hd line)" by simp
  from Cons.IH[OF this, of "Suc i" "m(?t \<mapsto> i + 1)"] obtain new m' where
    rec: "renumber_atoms (Suc i) ls (m(?t \<mapsto> i + 1)) = Inr (new, m')"
      "length new = length ls"
      "\<forall>j < length ls. py_split (new ! j) = py_str (Suc i + j + 1) # tl (py_split (ls ! j))"
    by blast
  have res: "renumber_atoms i (line # ls) m = Inr ((py_str (i + 1) @ ?r) # new, m')"
    using g rec(1) dr by simp
  have "\<forall>j < length (line # ls).
      py_split (((py_str (i + 1) @ ?r) # new) ! j) =
        py_str (i + j + 1) # tl (py_split ((line # ls) ! j))"
  proof (intro allI impI)
    fix j assume j: "j < length (line # ls)"
    show "py_split (((py_str (i + 1) @ ?r) # new) ! j) =
        py_str (i + j + 1) # tl (py_split ((line # ls) ! j))"
    proof (cases j)
      case 0
      then show ?thesis using new0 sp by simp
    next
      case (Suc j')
      with j have "j' < length ls" by simp
      with rec(3) Suc show ?thesis by simp
    qed
  qed
  with res rec(2) show ?case by simp
qed

lemma two_names:
  assumes "distinct xs" and "set xs = {a, b}" and "a \<noteq> b"
  shows "xs = [a, b] \<or> xs = [b, a]"
proof -
  from assms have "length xs = 2" using distinct_card[of xs] by simp
  then obtain x y where xy: "xs = [x, y]"
    by (cases xs; cases "tl xs") auto
  with assms(2) have "{x, y} = {a, b}" by simp
  then have "(x = a \<and> y = b) \<or> (x = b \<and> y = a)" by (simp add: doubleton_eq_iff)
  with xy show ?thesis by blast
qed


subsection \<open>The example inputs, run\<close>

lemma two_residue_run:
  "residues_from_block remdups echo_parser two_residue_block h =
     Inr [Residue ''LIG1''
            (residue_mol2_block ''LIG1''
               [''1 C1 0.0 0.0 0.0 C.3 1 LIG1 0.0\<newline>'',
                ''2 C2 1.5 0.0 0.0 C.3 1 LIG1 0.0\<newline>'',
                ''3 O1 2.0 1.0 0.0 O.3 1 LIG1 0.0\<newline>'']
               [''1 1 2 1\<newline>'']),
          Residue ''WAT1''
            (residue_mol2_block ''WAT1''
               [''1 O 5.0 5.0 5.0 O.3 2 WAT1 0.0\<newline>'',
                ''2 H1 5.5 5.5 5.0 H 2 WAT1 0.0\<newline>'']
               [''1 1 2 1\<newline>''])]"
  by code_simp


lemma short_file_run:
  "get_residues_from_mol2 remdups echo_parser 0 5 7 short_file False =
     Inr [Residue ''LIG1''
            (residue_mol2_block ''LIG1'' [''1 C1 0.0 0.0 0.0 C.3 1 LIG1 0.0\<newline>''] [])]"
  by code_simp


lemma two_record_run:
  "mol2_reader remdups echo_parser two_record_file False =
     Inr [Residue ''LIG1''
            (residue_mol2_block ''LIG1''
               [''1 C1 0.0 0.0 0.0 C.3 1 LIG1 0.0\<newline>'',
                ''2 O1 1.4 0.0 0.0 O.3 1 LIG1 0.0\<newline>'']
               [''1 1 2 1\<newline>''])]"
  by code_simp

lemma two_record_index:
  "get_mol2_records two_record_file = ([0, 10], [5, 15], [8])"
  by code_simp


section \<open>The claims on the mol2 reader\<close>

text \<open>
  C1, as the spec states it, fails. The header of \<open>short_file\<close> declares one atom
  and five bonds; the file ends right after the BOND marker, so the lines the counts ask
  for (up to index 13) run past its 8 lines. get_residues_from_mol2 raises nothing: it
  returns the residue LIG1, built from the truncated block, with no bond.
\<close>

theorem declared_counts_counterexample:
  "py_get short_file 2 = Inr ''1 5\<newline>'' \<and>
   int (length short_file) < 5 + 1 + 5 + 2 \<and>
   get_residues_from_mol2 remdups echo_parser 0 5 7 short_file False =
     Inr [Residue ''LIG1''
            (residue_mol2_block ''LIG1'' [''1 C1 0.0 0.0 0.0 C.3 1 LIG1 0.0\<newline>''] [])]"
proof -
  have "py_get short_file 2 = Inr ''1 5\<newline>''" by (simp add: py_get_def short_file_def)
  moreover have "int (length short_file) < 5 + 1 + 5 + 2" by (simp add: short_file_def)
  ultimately show ?thesis using short_file_run by blast
qed

text \<open>
  C1, amended. When the header line is there and its first two fields are integers,
  and the counts they declare run past the end of the lines, get_residues_from_mol2
  makes no check: the block it extracts is every line from the molecule record to the
  end of the input, and its result, error or not, is that of residues_from_block on
  this truncated block.
\<close>

theorem declared_counts_past_end_truncate:
  assumes "py_get lines (mol_line + 2) = Inr header"
    and "py_get (py_split header) 0 = Inr data0" and "py_int data0 = Inr num_atoms"
    and "py_get (py_split header) 1 = Inr data1" and "py_int data1 = Inr num_bonds"
    and "int (length lines) < int first_atom_line + num_atoms + num_bonds + 2"
  shows "get_residues_from_mol2 so p mol_line first_atom_line first_bond_line lines h =
           residues_from_block so p (drop mol_line lines) h"
proof -
  from assms(1) have "mol_line + 2 < length lines"
    by (simp add: py_get_def split: if_splits)
  then have lo: "mol_line \<le> length lines" by simp
  have hi: "int (length lines) \<le>
      int mol_line + int first_atom_line - int mol_line + num_atoms + 1 + num_bonds + 1"
    using assms(6) by simp
  show ?thesis
    unfolding get_residues_from_mol2_def
    by (simp only: assms(1-5) and_then.simps py_slice_to_end[OF lo hi])
qed

text \<open>The short file again: its hypotheses hold there.\<close>

theorem declared_counts_past_end_witness:
  "py_get short_file (0 + 2) = Inr ''1 5\<newline>'' \<and>
   py_get (py_split ''1 5\<newline>'') 0 = Inr ''1'' \<and> py_int ''1'' = Inr 1 \<and>
   py_get (py_split ''1 5\<newline>'') 1 = Inr ''5'' \<and> py_int ''5'' = Inr 5 \<and>
   int (length short_file) < int 5 + 1 + 5 + 2 \<and>
   get_residues_from_mol2 remdups echo_parser 0 5 7 short_file False =
     residues_from_block remdups echo_parser (drop 0 short_file) False"
proof -
  have a: "py_get short_file (0 + 2) = Inr ''1 5\<newline>''"
    by (simp add: py_get_def short_file_def)
  have b: "py_get (py_split ''1 5\<newline>'') 0 = Inr ''1''"
    by (simp add: py_get_def py_split_def is_space_def)
  have c: "py_int ''1'' = Inr 1" by (simp add: py_int_def digit_val_def)
  have d: "py_get (py_split ''1 5\<newline>'') 1 = Inr ''5''"
    by (simp add: py_get_def py_split_def is_space_def)
  have e: "py_int ''5'' = Inr 5" by (simp add: py_int_def digit_val_def)
  have f: "int (length short_file) < int 5 + 1 + 5 + 2" by (simp add: short_file_def)
  from declared_counts_past_end_truncate[OF a b c d e f, of remdups echo_parser 7 False]
    a b c d e f show ?thesis by blast
qed

text \<open>
  C4, as the spec states it, fails. The second molecule record of \<open>two_record_file\<close>
  has no BOND section: the scan finds two MOLECULE markers, two ATOM markers and one
  BOND marker. mol2_reader raises nothing and returns the residue of the first record
  alone; the second record is dropped.
\<close>

theorem missing_section_counterexample:
  "get_mol2_records two_record_file = ([0, 10], [5, 15], [8]) \<and>
   mol2_reader remdups echo_parser two_record_file False =
     Inr [Residue ''LIG1''
            (residue_mol2_block ''LIG1''
               [''1 C1 0.0 0.0 0.0 C.3 1 LIG1 0.0\<newline>'',
                ''2 O1 1.4 0.0 0.0 O.3 1 LIG1 0.0\<newline>'']
               [''1 1 2 1\<newline>''])]"
  using two_record_index two_record_run by blast

text \<open>
  C4, amended. mol2_reader does not compare the lengths of the three index lists. With
  \<open>k\<close> the least of the three lengths, it reads exactly the first \<open>k\<close> records, each
  from the \<open>i\<close>-th entries of the three lists, and the entries after the \<open>k\<close>-th play no
  part in its result.
\<close>

theorem reader_stops_with_shortest_index_list:
  assumes "get_mol2_records lines = (mol_lines, first_atom_lines, first_bond_lines)"
    and "k = min (length mol_lines) (min (length first_atom_lines) (length first_bond_lines))"
  shows "mol2_reader so p lines h =
           read_records so p lines h
             (zip (take k mol_lines) (zip (take k first_atom_lines) (take k first_bond_lines))) \<and>
         length (zip (take k mol_lines) (zip (take k first_atom_lines) (take k first_bond_lines)))
           = k"
proof -
  have z: "zip mol_lines (zip first_atom_lines first_bond_lines) =
      zip (take k mol_lines) (zip (take k first_atom_lines) (take k first_bond_lines))"
  proof -
    have "zip (take k mol_lines) (zip (take k first_atom_lines) (take k first_bond_lines)) =
        take k (zip mol_lines (zip first_atom_lines first_bond_lines))"
      by (simp add: take_zip)
    also have "\<dots> = zip mol_lines (zip first_atom_lines first_bond_lines)"
      using assms(2) by simp
    finally show ?thesis by simp
  qed
  have "mol2_reader so p lines h =
      read_records so p lines h (zip mol_lines (zip first_atom_lines first_bond_lines))"
    by (simp add: mol2_reader_def assms(1))
  with z show ?thesis using assms(2) by simp
qed

text \<open>The file of two records: \<open>k = 1\<close>, and only the record (0, 5, 8) is read.\<close>

theorem reader_stops_witness:
  "get_mol2_records two_record_file = ([0, 10], [5, 15], [8]) \<and>
   (1::nat) = min (length [0::nat, 10]) (min (length [5::nat, 15]) (length [8::nat])) \<and>
   mol2_reader remdups echo_parser two_record_file False =
     read_records remdups echo_parser two_record_file False [(0, 5, 8)]"
proof -
  have k: "(1::nat) = min (length [0::nat, 10]) (min (length [5::nat, 15]) (length [8::nat]))"
    by simp
  from reader_stops_with_shortest_index_list[OF two_record_index k, of remdups echo_parser False]
  have "mol2_reader remdups echo_parser two_record_file False =
     read_records remdups echo_parser two_record_file False [(0, 5, 8)]" by simp
  with two_record_index k show ?thesis by blast
qed

text \<open>
  C5 fails on the code for atom lines that do not start with their id. The id is read
  with \<^verbatim>\<open>split\<close>, which skips leading whitespace, but the new line is
  \<^verbatim>\<open>str(i+1) + line[len(atom_id):]\<close>, which cuts the first characters of the line,
  not the id where it stands. On the block with right-justified ids, the first atom
  line keeps its old id 5 as a second field (ten fields instead of nine), and the
  second atom line gets the id 212 where 2 was meant.
\<close>

theorem padded_ids_not_renumbered:
  "residues_from_block remdups echo_parser padded_block False =
     Inr [Residue ''LIG1''
            (residue_mol2_block ''LIG1''
               [''1  5 C1 0.0 0.0 0.0 C.3 1 LIG1 0.0\<newline>'',
                ''212 O1 1.4 0.0 0.0 O.3 1 LIG1 0.0\<newline>'']
               [''1 1 2 1\<newline>''])] \<and>
   py_split ''   5 C1 0.0 0.0 0.0 C.3 1 LIG1 0.0\<newline>'' =
     [''5'', ''C1'', ''0.0'', ''0.0'', ''0.0'', ''C.3'', ''1'', ''LIG1'', ''0.0''] \<and>
   py_split ''1  5 C1 0.0 0.0 0.0 C.3 1 LIG1 0.0\<newline>'' =
     [''1'', ''5'', ''C1'', ''0.0'', ''0.0'', ''0.0'', ''C.3'', ''1'', ''LIG1'', ''0.0''] \<and>
   py_split ''212 O1 1.4 0.0 0.0 O.3 1 LIG1 0.0\<newline>'' =
     [''212'', ''O1'', ''1.4'', ''0.0'', ''0.0'', ''O.3'', ''1'', ''LIG1'', ''0.0'']"
proof -
  have "residues_from_block remdups echo_parser padded_block False =
     Inr [Residue ''LIG1''
            (residue_mol2_block ''LIG1''
               [''1  5 C1 0.0 0.0 0.0 C.3 1 LIG1 0.0\<newline>'',
                ''212 O1 1.4 0.0 0.0 O.3 1 LIG1 0.0\<newline>'']
               [''1 1 2 1\<newline>''])]"
    by code_simp
  moreover have "py_split ''   5 C1 0.0 0.0 0.0 C.3 1 LIG1 0.0\<newline>'' =
     [''5'', ''C1'', ''0.0'', ''0.0'', ''0.0'', ''C.3'', ''1'', ''LIG1'', ''0.0'']"
    by (simp add: py_split_def is_space_def)
  moreover have "py_split ''1  5 C1 0.0 0.0 0.0 C.3 1 LIG1 0.0\<newline>'' =
     [''1'', ''5'', ''C1'', ''0.0'', ''0.0'', ''0.0'', ''C.3'', ''1'', ''LIG1'', ''0.0'']"
    by (simp add: py_split_def is_space_def)
  moreover have "py_split ''212 O1 1.4 0.0 0.0 O.3 1 LIG1 0.0\<newline>'' =
     [''212'', ''O1'', ''1.4'', ''0.0'', ''0.0'', ''O.3'', ''1'', ''LIG1'', ''0.0'']"
    by (simp add: py_split_def is_space_def)
  ultimately show ?thesis by blast
qed

text \<open>
  C8. On the two-residue block of the example, whatever the order in which the set of
  residue names is iterated, residues_from_block returns exactly two residues, one for
  LIG1 and one for WAT1. The block given to the parser for LIG1 has the atom lines
  with the ids 1, 2, 3 and the one bond line 1 1 2 1; the block for WAT1 has the atom
  lines with the ids 1, 2 and the one bond line 1 1 2 1. The bond 7-9 is in neither.
\<close>

theorem two_residue_example_split:
  assumes "set_iteration so [''LIG1'', ''LIG1'', ''LIG1'', ''WAT1'', ''WAT1'']"
  shows "\<exists>rs. residues_from_block so echo_parser two_residue_block h = Inr rs \<and>
           length rs = 2 \<and>
           set rs =
             {Residue ''LIG1''
                (residue_mol2_block ''LIG1''
                   [''1 C1 0.0 0.0 0.0 C.3 1 LIG1 0.0\<newline>'',
                    ''2 C2 1.5 0.0 0.0 C.3 1 LIG1 0.0\<newline>'',
                    ''3 O1 2.0 1.0 0.0 O.3 1 LIG1 0.0\<newline>'']
                   [''1 1 2 1\<newline>'']),
              Residue ''WAT1''
                (residue_mol2_block ''WAT1''
                   [''1 O 5.0 5.0 5.0 O.3 2 WAT1 0.0\<newline>'',
                    ''2 H1 5.5 5.5 5.0 H 2 WAT1 0.0\<newline>'']
                   [''1 1 2 1\<newline>''])}"
proof -
  let ?names = "[''LIG1'', ''LIG1'', ''LIG1'', ''WAT1'', ''WAT1'']"
  from assms have d: "distinct (so ?names)" and s: "set (so ?names) = {''LIG1'', ''WAT1''}"
    by (auto simp: set_iteration_def)
  have "''LIG1'' \<noteq> ''WAT1''" by simp
  from two_names[OF d s this]
  show ?thesis
  proof
    assume o: "so ?names = [''LIG1'', ''WAT1'']"
    show ?thesis
      by (simp add: mol2_defs two_residue_block_def o)
  next
    assume o: "so ?names = [''WAT1'', ''LIG1'']"
    show ?thesis
      by (simp add: mol2_defs two_residue_block_def o insert_commute)
  qed
qed

text \<open>With the names in the order of their first occurrence.\<close>

theorem two_residue_example_witness:
  "set_iteration remdups [''LIG1'', ''LIG1'', ''LIG1'', ''WAT1'', ''WAT1''] \<and>
   (\<exists>rs. residues_from_block remdups echo_parser two_residue_block False = Inr rs \<and>
           length rs = 2 \<and>
           set rs =
             {Residue ''LIG1''
                (residue_mol2_block ''LIG1''
                   [''1 C1 0.0 0.0 0.0 C.3 1 LIG1 0.0\<newline>'',
                    ''2 C2 1.5 0.0 0.0 C.3 1 LIG1 0.0\<newline>'',
                    ''3 O1 2.0 1.0 0.0 O.3 1 LIG1 0.0\<newline>'']
                   [''1 1 2 1\<newline>'']),
              Residue ''WAT1''
                (residue_mol2_block ''WAT1''
                   [''1 O 5.0 5.0 5.0 O.3 2 WAT1 0.0\<newline>'',
                    ''2 H1 5.5 5.5 5.0 H 2 WAT1 0.0\<newline>'']
                   [''1 1 2 1\<newline>''])})"
proof -
  have i: "set_iteration remdups [''LIG1'', ''LIG1'', ''LIG1'', ''WAT1'', ''WAT1'']"
    by (simp add: set_iteration_def)
  from two_residue_example_split[OF i, of False] i show ?thesis by blast
qed

text \<open>
  C9. Whatever the toolkit's parser returns, residues_from_block raises exactly the
  errors it raises with a parser that accepts every block, so a parse failure is never
  an error of the split. When it returns, its result is the list of the synthesized
  blocks, in order, without those on which the parser failed, each of the others
  replaced by the molecule the parser returned for it (called with sanitize = True and
  removeHs = ignoreH) and carrying the residue name of its block.
\<close>

theorem parser_failure_drops_only_that_residue:
  "residues_from_block so p block h =
     (case residues_from_block so echo_parser block h of
        Inl e \<Rightarrow> Inl e
      | Inr blocks \<Rightarrow>
          Inr (List.map_filter (\<lambda>r. map_option (Residue (resname r)) (p (rdmol r) True h))
                 blocks))"
proof -
  obtain ml al bl where g: "get_mol2_records block = (ml, al, bl)"
    by (cases "get_mol2_records block") auto
  show ?thesis
    unfolding residues_from_block_def g prod.case Let_def case_and_then
    by (simp only: create_residues_any_parser[of p, symmetric])
qed



text \<open>
  The two-residue block with a parser that fails on WAT1: LIG1 alone is returned.
\<close>

theorem parser_failure_witness:
  "residues_from_block remdups no_water_parser two_residue_block False =
     Inr [Residue ''LIG1''
            (residue_mol2_block ''LIG1''
               [''1 C1 0.0 0.0 0.0 C.3 1 LIG1 0.0\<newline>'',
                ''2 C2 1.5 0.0 0.0 C.3 1 LIG1 0.0\<newline>'',
                ''3 O1 2.0 1.0 0.0 O.3 1 LIG1 0.0\<newline>'']
               [''1 1 2 1\<newline>''])]"
  using parser_failure_drops_only_that_residue[of remdups no_water_parser two_residue_block False]
  by (simp add: two_residue_run List.map_filter_simps no_water_parser_def
      residue_mol2_block_def py_str.simps)


end
